theory Spec2Isabelle
  imports Main "HOL-Library.Word"
begin

section \<open>The DocumentRegistry contract (sc/src/DocumentRegistry.sol)\<close>

text \<open>
  Solidity value types are modelled by machine words of their width: \<open>bytes32\<close> and
  \<open>uint256\<close> are 256-bit words (compared unsigned, as the EVM does), \<open>address\<close> is a
  160-bit word whose zero is \<open>address(0)\<close>. A \<open>bytes\<close> value is a list of octets, a
  \<open>string\<close> a list of characters.
\<close>

type_synonym bytes32 = "256 word"
type_synonym uint256 = "256 word"
type_synonym address = "160 word"
type_synonym bytes = "8 word list"

text \<open>The struct \<open>Document\<close>, field by field.\<close>

record Document =
  hash :: bytes32
  timestamp :: uint256
  signer :: address
  signature :: bytes
  ipfsCid :: string

text \<open>
  The storage of the contract: the mapping \<open>documents\<close> (a Solidity mapping is total,
  every key that was never written reads as the all-zero struct) and the dynamic array
  \<open>documentHashes\<close>.
\<close>

record DocumentRegistry =
  documents :: "bytes32 \<Rightarrow> Document"
  documentHashes :: "bytes32 list"

definition zero_Document :: Document where
  "zero_Document = \<lparr>hash = 0, timestamp = 0, signer = 0, signature = [], ipfsCid = []\<rparr>"

text \<open>The storage right after deployment: nothing written, the array empty.\<close>

definition deployed :: DocumentRegistry where
  "deployed = \<lparr>documents = (\<lambda>_. zero_Document), documentHashes = []\<rparr>"

text \<open>The two events of the contract, with the arguments they are emitted with.\<close>

datatype event =
    DocumentStored bytes32 address uint256 bytes
  | DocumentVerified bytes32 address bool

text \<open>
  What a call sees of its transaction: \<open>block.timestamp\<close> and \<open>msg.sender\<close>. No function
  of the contract reads \<open>msg.sender\<close>; it is part of the model so that statements about
  the caller can be made.
\<close>

record txenv =
  block_timestamp :: uint256
  msg_sender :: address

text \<open>
  A \<open>require\<close> that fails reverts the call with its message: the result is \<open>Inl\<close> of the
  message, and the storage the call started from stays as it was. A call that returns
  gives \<open>Inr\<close>.

  \<open>_documentNotExists\<close> and \<open>_documentExists\<close> are the bodies of the two modifiers of
  the same names.
\<close>

definition documentNotExists :: "DocumentRegistry \<Rightarrow> bytes32 \<Rightarrow> string + unit" where
  "documentNotExists s h =
     (if signer (documents s h) = 0 then Inr () else Inl ''Document already exists'')"

definition documentExists :: "DocumentRegistry \<Rightarrow> bytes32 \<Rightarrow> string + unit" where
  "documentExists s h =
     (if signer (documents s h) \<noteq> 0 then Inr () else Inl ''Document does not exist'')"

text \<open>
  \<open>storeDocumentHash\<close>: the modifier runs first, then the four \<open>require\<close>s in the order
  of the source, then the three effects (mapping write, array push, event).
\<close>

definition storeDocumentHash ::
  "txenv \<Rightarrow> DocumentRegistry \<Rightarrow> bytes32 \<Rightarrow> uint256 \<Rightarrow> bytes \<Rightarrow> address \<Rightarrow> string
     \<Rightarrow> string + (DocumentRegistry \<times> event list)" where
  "storeDocumentHash e s h ts sg who cid =
     (case documentNotExists s h of
        Inl msg \<Rightarrow> Inl msg
      | Inr _ \<Rightarrow>
          if \<not> ts > 0 then Inl ''Timestamp must be greater than zero''
          else if \<not> ts \<le> block_timestamp e then Inl ''Timestamp cannot be in the future''
          else if \<not> (length sg > 0 \<and> length sg \<le> 2048) then Inl ''Invalid signature''
          else if \<not> who \<noteq> 0 then Inl ''Invalid signer address''
          else Inr (s\<lparr>documents := (documents s)
                         (h := \<lparr>hash = h, timestamp = ts, signer = who,
                                signature = sg, ipfsCid = cid\<rparr>),
                       documentHashes := documentHashes s @ [h]\<rparr>,
                    [DocumentStored h who ts sg]))"

text \<open>
  \<open>verifyDocument\<close> is not a view function (it emits an event) but writes no storage:
  the result is the returned flag and the event.
\<close>

definition verifyDocument ::
  "DocumentRegistry \<Rightarrow> bytes32 \<Rightarrow> address \<Rightarrow> bytes \<Rightarrow> bool \<times> event list" where
  "verifyDocument s h who sg =
     (let doc = documents s h;
          isValid = (if signer doc = 0 then False
                     else (signer doc = who \<and> length (signature doc) > 0 \<and> length sg > 0))
      in (isValid, [DocumentVerified h who isValid]))"

definition getDocumentInfo :: "DocumentRegistry \<Rightarrow> bytes32 \<Rightarrow> string + Document" where
  "getDocumentInfo s h =
     (case documentExists s h of Inl msg \<Rightarrow> Inl msg | Inr _ \<Rightarrow> Inr (documents s h))"

definition getDocumentSignature :: "DocumentRegistry \<Rightarrow> bytes32 \<Rightarrow> string + bytes" where
  "getDocumentSignature s h =
     (case documentExists s h of Inl msg \<Rightarrow> Inl msg | Inr _ \<Rightarrow> Inr (signature (documents s h)))"

definition getDocumentCid :: "DocumentRegistry \<Rightarrow> bytes32 \<Rightarrow> string + string" where
  "getDocumentCid s h =
     (case documentExists s h of Inl msg \<Rightarrow> Inl msg | Inr _ \<Rightarrow> Inr (ipfsCid (documents s h)))"

text \<open>
  \<open>isDocumentStored\<close> and \<open>getDocumentCount\<close> have no \<open>require\<close>; they are given the
  same result type as the other external functions so that "never fails" is a statement
  about the model and not a matter of its types.
\<close>

definition isDocumentStored :: "DocumentRegistry \<Rightarrow> bytes32 \<Rightarrow> string + bool" where
  "isDocumentStored s h = Inr (signer (documents s h) \<noteq> 0)"

text \<open>
  The length of a storage array is a \<open>uint256\<close>; an array of \<open>2 ^ 256\<close> elements cannot
  be built, so the count is the length of the list, and an index (a \<open>uint256\<close> argument)
  is compared with it by its unsigned value.
\<close>

definition getDocumentCount :: "DocumentRegistry \<Rightarrow> string + nat" where
  "getDocumentCount s = Inr (length (documentHashes s))"

definition getDocumentHashByIndex :: "DocumentRegistry \<Rightarrow> uint256 \<Rightarrow> string + bytes32" where
  "getDocumentHashByIndex s i =
     (if \<not> unat i < length (documentHashes s) then Inl ''Index out of bounds''
      else Inr (documentHashes s ! unat i))"

subsection \<open>Transactions and reachable storage\<close>

text \<open>
  The two functions that can be sent as transactions. A transaction that reverts leaves
  the storage it found; \<open>run\<close> executes a sequence of transactions, each in its own
  environment, which is how every storage the contract can have comes about from
  \<open>deployed\<close>.
\<close>

datatype call =
    StoreDocumentHash bytes32 uint256 bytes address string
  | VerifyDocument bytes32 address bytes

fun transact :: "DocumentRegistry \<Rightarrow> txenv \<times> call \<Rightarrow> DocumentRegistry" where
  "transact s (e, StoreDocumentHash h ts sg who cid) =
     (case storeDocumentHash e s h ts sg who cid of Inl _ \<Rightarrow> s | Inr (s', _) \<Rightarrow> s')"
| "transact s (e, VerifyDocument h who sg) = s"

fun run :: "DocumentRegistry \<Rightarrow> (txenv \<times> call) list \<Rightarrow> DocumentRegistry" where
  "run s [] = s"
| "run s (c # cs) = run (transact s c) cs"

text \<open>
  The fingerprints of the \<open>storeDocumentHash\<close> transactions of a sequence that returned
  (did not revert), in the order the transactions were executed.
\<close>

fun successful_puts :: "DocumentRegistry \<Rightarrow> (txenv \<times> call) list \<Rightarrow> bytes32 list" where
  "successful_puts s [] = []"
| "successful_puts s ((e, StoreDocumentHash h ts sg who cid) # cs) =
     (case storeDocumentHash e s h ts sg who cid of
        Inl _ \<Rightarrow> successful_puts s cs
      | Inr (s', _) \<Rightarrow> h # successful_puts s' cs)"
| "successful_puts s ((e, VerifyDocument h who sg) # cs) = successful_puts s cs"

text \<open>
  The invariant of the storage: a slot whose signer is set holds a record written by
  \<open>storeDocumentHash\<close>, so it carries its own key, a positive timestamp and a signature of
  1 to 2048 bytes.
\<close>

definition well_formed :: "DocumentRegistry \<Rightarrow> bool" where
  "well_formed s \<longleftrightarrow>
     (\<forall>h. signer (documents s h) \<noteq> 0 \<longrightarrow>
        hash (documents s h) = h \<and> timestamp (documents s h) > 0 \<and>
        0 < length (signature (documents s h)) \<and> length (signature (documents s h)) \<le> 2048)"

section \<open>The signing workflow (dapp/components/steps/Step2SignDocument.tsx)\<close>

text \<open>
  The component works on hex strings; the model keeps the values they denote: the
  document hash is a \<open>bytes32\<close> (the empty string, "not calculated yet", is \<open>None\<close>),
  a signature is a \<open>bytes\<close> value, an account is an \<open>address\<close> (\<open>null\<close> is \<open>None\<close>).
  The message that is signed is the fixed prefix followed by the hash.
\<close>

type_synonym message = "string \<times> bytes32"

text \<open>\<open>UPLOAD_CONFIG\<close> of config/upload.ts: the two groups the workflow reads.\<close>

record ipfs_settings =
  maxRetries :: nat
  retryDelay :: nat
  uploadTimeout :: nat

record blockchain_settings =
  minConfirmations :: nat
  confirmationTimeout :: nat

record upload_config =
  ipfs :: ipfs_settings
  blockchain :: blockchain_settings

definition UPLOAD_CONFIG :: upload_config where
  "UPLOAD_CONFIG =
     \<lparr>ipfs = \<lparr>maxRetries = 3, retryDelay = 2000, uploadTimeout = 30000\<rparr>,
      blockchain = \<lparr>minConfirmations = 2, confirmationTimeout = 5 * 60 * 1000\<rparr>\<rparr>"

text \<open>\<open>IPFSError\<close> of utils/ipfs.ts; every failure of \<open>uploadToIPFS\<close> is one of these.\<close>

datatype IPFSErrorType =
  MISSING_JWT | UPLOAD_FAILED | DOWNLOAD_FAILED | FILE_TOO_LARGE | NETWORK_ERROR | INVALID_CID

record IPFSError =
  errorType :: IPFSErrorType
  message :: string

definition getIPFSErrorMessage :: "IPFSError \<Rightarrow> string" where
  "getIPFSErrorMessage err = message err"

text \<open>The types of types/stepper.ts that the workflow fills in.\<close>

datatype status = Idle | Loading | Ok | Error

datatype ipfs_status = Ipfs_idle | Uploading | Success | Ipfs_error

record IPFSProgress =
  ipfs_status :: ipfs_status
  progress :: nat
  ipfs_cid :: "string option"
  ipfs_error :: "string option"
  retryAttempt :: "nat option"

datatype blockchain_status = Bc_idle | Estimating | Sending | Confirming | Confirmed | Bc_error

record BlockchainProgress =
  bc_status :: blockchain_status
  bc_txHash :: "string option"
  bc_confirmations :: "nat option"
  bc_error :: "string option"

record SignatureData =
  sd_signature :: bytes
  sd_timestamp :: uint256
  sd_signerAddress :: address

record BlockchainData =
  txHash :: string
  blockNumber :: nat
  confirmations :: nat
  ipfsCID :: string

text \<open>
  Everything the component does that an observer can see, in the order it does it: the
  state setters, the callbacks to its parent, the calls to the publisher, the
  \<open>storeDocumentHash\<close> transactions sent to the registry (with their arguments) and the
  waits.
\<close>

datatype effect =
    SetError "string option"
  | SetIsProcessing bool
  | SetSignStatus status
  | SetIpfsStatus status
  | SetBlockchainStatus status
  | SetIpfsProgress IPFSProgress
  | SetBlockchainProgress BlockchainProgress
  | OnDocumentSigned SignatureData
  | OnStored BlockchainData
  | CallUploadToIPFS
  | CallStoreDocumentHash bytes32 uint256 bytes address string
  | Wait nat

text \<open>
  The collaborators of one run. \<open>signMessage\<close> is the wallet: it returns a signature or
  throws with a message. \<open>uploadToIPFS k\<close> is what the \<open>k\<close>-th call of the publisher
  in this run does (counted from 0): it returns a CID or throws an \<open>IPFSError\<close>.
  \<open>contractLoaded\<close> says whether the hook holds a contract instance; \<open>txEnvironment\<close> is
  the block time and sender the store transaction is mined with, \<open>transactionHash\<close> its
  (non-empty) hash, and \<open>revertMessage reason\<close> the message of the error that the ethers
  library throws when the transaction reverts with \<open>reason\<close>.
\<close>

record collaborators =
  account :: "address option"
  isConnected :: bool
  signMessage :: "message \<Rightarrow> string + bytes"
  getBlockchainTimestamp :: uint256
  uploadToIPFS :: "nat \<Rightarrow> IPFSError + string"
  contractLoaded :: bool
  txEnvironment :: txenv
  transactionHash :: string
  revertMessage :: "string \<Rightarrow> string"

text \<open>JavaScript's \<open>a || b\<close> on strings: the empty string is falsy.\<close>

definition or_else :: "string \<Rightarrow> string \<Rightarrow> string" where
  "or_else a b = (if a = [] then b else a)"

text \<open>\<open>signDocument\<close>: every \<open>throw\<close> inside the \<open>try\<close> is caught and thrown again.\<close>

definition signDocument ::
  "collaborators \<Rightarrow> bytes32 option \<Rightarrow> effect list \<times> (string + SignatureData)" where
  "signDocument w documentHash =
     (case
        (case account w of
           None \<Rightarrow> Inl ''Wallet not connected''
         | Some acc \<Rightarrow>
             if \<not> isConnected w then Inl ''Wallet not connected''
             else (case documentHash of
                     None \<Rightarrow> Inl ''Document hash not calculated''
                   | Some h \<Rightarrow>
                       (case signMessage w (''Signing document with hash: '', h) of
                          Inl msg \<Rightarrow> Inl msg
                        | Inr sg \<Rightarrow>
                            Inr \<lparr>sd_signature = sg, sd_timestamp = getBlockchainTimestamp w,
                                 sd_signerAddress = acc\<rparr>)))
      of
        Inl msg \<Rightarrow>
          ([SetSignStatus Loading, SetSignStatus Error], Inl (or_else msg ''Failed to sign document''))
      | Inr newSignatureData \<Rightarrow>
          ([SetSignStatus Loading, SetSignStatus Ok, OnDocumentSigned newSignatureData],
           Inr newSignatureData))"

text \<open>
  \<open>uploadToIPFSWithRetry\<close>: one attempt, and on failure either a wait and the next
  attempt, or the final error. The recursion ends because \<open>retryAttempt\<close> grows towards
  \<open>maxRetries\<close>.
\<close>

function uploadToIPFSWithRetry ::
  "collaborators \<Rightarrow> nat \<Rightarrow> effect list \<times> (string + string)" where
  "uploadToIPFSWithRetry w attempt =
     (let started =
            [SetIpfsStatus Loading,
             SetIpfsProgress \<lparr>ipfs_status = Uploading, progress = 0, ipfs_cid = None,
                              ipfs_error = None, retryAttempt = Some attempt\<rparr>,
             CallUploadToIPFS]
      in case uploadToIPFS w attempt of
           Inr c \<Rightarrow>
             (started @
              [SetIpfsProgress \<lparr>ipfs_status = Success, progress = 100, ipfs_cid = Some c,
                               ipfs_error = None, retryAttempt = None\<rparr>,
               SetIpfsStatus Ok],
              Inr c)
         | Inl err \<Rightarrow>
             if attempt < maxRetries (ipfs UPLOAD_CONFIG) then
               (case uploadToIPFSWithRetry w (attempt + 1) of
                  (later, r) \<Rightarrow> (started @ [Wait (retryDelay (ipfs UPLOAD_CONFIG))] @ later, r))
             else
               (started @
                [SetIpfsProgress \<lparr>ipfs_status = Ipfs_error, progress = 0, ipfs_cid = None,
                                 ipfs_error = Some (getIPFSErrorMessage err),
                                 retryAttempt = Some attempt\<rparr>,
                 SetIpfsStatus Error],
                Inl (getIPFSErrorMessage err)))"
  by pat_completeness auto
termination
  by (relation "measure (\<lambda>(w, attempt). maxRetries (ipfs UPLOAD_CONFIG) - attempt)") auto

declare uploadToIPFSWithRetry.simps [simp del]

text \<open>
  \<open>storeDocumentHash\<close> of the hook \<open>useContract\<close>: without a contract or a connected
  account it returns nothing (\<open>None\<close>) without calling the registry; otherwise it
  sends the transaction to the registry, throws the error of a reverted transaction on
  and returns the transaction hash when the transaction is mined.
\<close>

definition hook_storeDocumentHash ::
  "collaborators \<Rightarrow> DocumentRegistry \<Rightarrow> bytes32 \<Rightarrow> uint256 \<Rightarrow> bytes \<Rightarrow> address \<Rightarrow> string
     \<Rightarrow> effect list \<times> DocumentRegistry \<times> (string + string option)" where
  "hook_storeDocumentHash w reg h ts sg who c =
     (if \<not> contractLoaded w \<or> \<not> isConnected w \<or> account w = None then ([], reg, Inr None)
      else (case storeDocumentHash (txEnvironment w) reg h ts sg who c of
              Inl reason \<Rightarrow>
                ([CallStoreDocumentHash h ts sg who c], reg, Inl (revertMessage w reason))
            | Inr (reg', _) \<Rightarrow>
                ([CallStoreDocumentHash h ts sg who c], reg', Inr (Some (transactionHash w)))))"

text \<open>
  \<open>storeOnBlockchain\<close>. The gas estimate shown while the transaction is prepared is a
  constant of the component and is left out of the progress record.
\<close>

definition storeOnBlockchain ::
  "collaborators \<Rightarrow> DocumentRegistry \<Rightarrow> bytes32 \<Rightarrow> string \<Rightarrow> SignatureData
     \<Rightarrow> effect list \<times> DocumentRegistry \<times> (string + BlockchainData)" where
  "storeOnBlockchain w reg documentHash cidOfUpload sd =
     (let started =
            [SetBlockchainStatus Loading,
             SetBlockchainProgress \<lparr>bc_status = Estimating, bc_txHash = None,
                                    bc_confirmations = None, bc_error = None\<rparr>,
             SetBlockchainProgress \<lparr>bc_status = Estimating, bc_txHash = None,
                                    bc_confirmations = None, bc_error = None\<rparr>,
             SetBlockchainProgress \<lparr>bc_status = Sending, bc_txHash = None,
                                    bc_confirmations = None, bc_error = None\<rparr>];
          failed = (\<lambda>msg.
            [SetBlockchainProgress \<lparr>bc_status = Bc_error, bc_txHash = None,
                                    bc_confirmations = None,
                                    bc_error = Some (or_else msg ''Failed to store on blockchain'')\<rparr>,
             SetBlockchainStatus Error])
      in case hook_storeDocumentHash w reg documentHash (sd_timestamp sd) (sd_signature sd)
                (sd_signerAddress sd) cidOfUpload of
           (sent, reg', Inl msg) \<Rightarrow> (started @ sent @ failed msg, reg', Inl msg)
         | (sent, reg', Inr None) \<Rightarrow>
             (started @ sent @ failed ''Transaction failed - no transaction hash returned'',
              reg', Inl ''Transaction failed - no transaction hash returned'')
         | (sent, reg', Inr (Some tx)) \<Rightarrow>
             if tx = [] then
               (started @ sent @ failed ''Transaction failed - no transaction hash returned'',
                reg', Inl ''Transaction failed - no transaction hash returned'')
             else
               (let blockchainData =
                      \<lparr>txHash = tx, blockNumber = 0,
                       confirmations = minConfirmations (blockchain UPLOAD_CONFIG),
                       ipfsCID = cidOfUpload\<rparr>
                in (started @ sent @
                    [SetBlockchainProgress \<lparr>bc_status = Confirming, bc_txHash = Some tx,
                                            bc_confirmations = Some 0, bc_error = None\<rparr>,
                     Wait 3000,
                     SetBlockchainProgress \<lparr>bc_status = Confirmed, bc_txHash = Some tx,
                                            bc_confirmations =
                                              Some (minConfirmations (blockchain UPLOAD_CONFIG)),
                                            bc_error = None\<rparr>,
                     SetBlockchainStatus Ok],
                    reg', Inr blockchainData)))"

text \<open>
  \<open>handleSignAndStore\<close>, the whole run: the two guards, then sign, publish and commit
  inside one \<open>try\<close>, whose \<open>catch\<close> reports the message of whatever was thrown. The
  result is what the observer saw, the registry afterwards, and how the run ended:
  \<open>Inr\<close> of the data handed to \<open>onStored\<close>, or \<open>Inl\<close> of the message given to
  \<open>setError\<close>.
\<close>

definition handleSignAndStore ::
  "collaborators \<Rightarrow> DocumentRegistry \<Rightarrow> bytes32 option
     \<Rightarrow> effect list \<times> DocumentRegistry \<times> (string + BlockchainData)" where
  "handleSignAndStore w reg documentHash =
     (if account w = None \<or> \<not> isConnected w then
        ([SetError (Some ''Wallet not connected'')], reg, Inl ''Wallet not connected'')
      else case documentHash of
        None \<Rightarrow>
          ([SetError (Some ''Document hash not calculated'')], reg,
           Inl ''Document hash not calculated'')
      | Some h \<Rightarrow>
          (let begun = [SetIsProcessing True, SetError None, SetSignStatus Idle,
                        SetIpfsStatus Idle, SetBlockchainStatus Idle];
               caught = (\<lambda>msg.
                 [SetError (Some (or_else msg ''Failed to complete sign and store process'')),
                  SetIsProcessing False])
           in case signDocument w documentHash of
                (signing, Inl msg) \<Rightarrow>
                  (begun @ signing @ caught msg, reg,
                   Inl (or_else msg ''Failed to complete sign and store process''))
              | (signing, Inr sd) \<Rightarrow>
                  (case uploadToIPFSWithRetry w 0 of
                     (publishing, Inl msg) \<Rightarrow>
                       (begun @ signing @ publishing @ caught msg, reg,
                        Inl (or_else msg ''Failed to complete sign and store process''))
                   | (publishing, Inr cidOfUpload) \<Rightarrow>
                       (case storeOnBlockchain w reg h cidOfUpload sd of
                          (committing, reg', Inl msg) \<Rightarrow>
                            (begun @ signing @ publishing @ committing @ caught msg, reg',
                             Inl (or_else msg ''Failed to complete sign and store process''))
                        | (committing, reg', Inr data) \<Rightarrow>
                            (begun @ signing @ publishing @ committing @
                             [OnStored data, SetIsProcessing False],
                             reg', Inr data)))))"

text \<open>
  Two readings of what an observer saw: the progress value shown while attempt \<open>k\<close> is
  under way, and the number of calls made to the publisher.
\<close>

definition uploading :: "nat \<Rightarrow> effect" where
  "uploading k = SetIpfsProgress \<lparr>ipfs_status = Uploading, progress = 0, ipfs_cid = None,
                                  ipfs_error = None, retryAttempt = Some k\<rparr>"

fun attempts_made :: "effect list \<Rightarrow> nat" where
  "attempts_made [] = 0"
| "attempts_made (CallUploadToIPFS # xs) = Suc (attempts_made xs)"
| "attempts_made (_ # xs) = attempts_made xs"

text \<open>
  The effects of the commit stage: everything \<open>storeOnBlockchain\<close> sets (the run resets
  the blockchain status to \<open>Idle\<close> before its first stage; every other value of it is set
  by \<open>storeOnBlockchain\<close> only), the transaction sent to the registry, and the callback
  that reports the stored document.
\<close>

fun commit_stage :: "effect \<Rightarrow> bool" where
  "commit_stage (SetBlockchainStatus st) = (st \<noteq> Idle)"
| "commit_stage (SetBlockchainProgress _) = True"
| "commit_stage (CallStoreDocumentHash _ _ _ _ _) = True"
| "commit_stage (OnStored _) = True"
| "commit_stage _ = False"

section \<open>The verifier (\<open>DocumentVerifier\<close>, \<open>handleVerify\<close>, and utils/ens.ts)\<close>

text \<open>
  Text that the user types and text that is compared is a JavaScript string: a sequence
  of UTF-16 code units. The fixed messages of the component are written as literals.
\<close>

type_synonym jsstring = "16 word list"

definition ascii :: "string \<Rightarrow> jsstring" where
  "ascii s = map (\<lambda>c. of_nat (of_char c)) s"

text \<open>
  \<open>String.prototype.trim\<close> removes white space and line terminators from both ends:
  TAB, LF, VT, FF, CR, SPACE, NO-BREAK SPACE, U+1680, U+2000 to U+200A, U+2028, U+2029,
  U+202F, U+205F, U+3000 and U+FEFF.
\<close>

definition isWhiteSpace :: "16 word \<Rightarrow> bool" where
  "isWhiteSpace u \<longleftrightarrow>
     u \<in> set [0x0009, 0x000A, 0x000B, 0x000C, 0x000D, 0x0020, 0x00A0, 0x1680,
              0x2028, 0x2029, 0x202F, 0x205F, 0x3000, 0xFEFF] \<or>
     (0x2000 \<le> u \<and> u \<le> 0x200A)"

definition trim :: "jsstring \<Rightarrow> jsstring" where
  "trim s = rev (dropWhile isWhiteSpace (rev (dropWhile isWhiteSpace s)))"

definition endsWith :: "jsstring \<Rightarrow> jsstring \<Rightarrow> bool" where
  "endsWith s t \<longleftrightarrow> length t \<le> length s \<and> drop (length s - length t) s = t"

text \<open>\<open>String.prototype.includes\<close> on messages.\<close>

definition string_includes :: "string \<Rightarrow> string \<Rightarrow> bool" where
  "string_includes s t \<longleftrightarrow> list_ex (\<lambda>i. take (length t) (drop i s) = t) [0..<Suc (length s)]"

text \<open>
  What the verifier calls and the repository does not contain, as parameters:
  \<^item> \<open>keccak256\<close>, the digest of the ethers library;
  \<^item> \<open>isAddress\<close>, the test \<open>ethers.isAddress\<close>;
  \<^item> \<open>toLowerCase\<close>, \<open>String.prototype.toLowerCase\<close>;
  \<^item> \<open>addressString\<close>, the string as which ethers hands an \<open>address\<close> returned by the
    contract to JavaScript;
  \<^item> \<open>resolveName chain name\<close>, the answer of \<open>provider.resolveName\<close> on the ENS of
    that chain: an address string, \<open>null\<close>, or an error thrown;
  \<^item> \<open>callException reason\<close>, the message of the error that ethers throws when a
    read call reverts with \<open>reason\<close>.
\<close>

record platform =
  keccak256 :: "bytes \<Rightarrow> bytes32"
  isAddress :: "jsstring \<Rightarrow> bool"
  toLowerCase :: "jsstring \<Rightarrow> jsstring"
  addressString :: "address \<Rightarrow> jsstring"
  resolveName :: "nat \<Rightarrow> jsstring \<Rightarrow> string + jsstring option"
  callException :: "string \<Rightarrow> string"

text \<open>\<open>HashUtils.calculateFileHash\<close> (utils/hash.ts): the digest of the bytes of the file.\<close>

definition calculateFileHash :: "platform \<Rightarrow> bytes \<Rightarrow> bytes32" where
  "calculateFileHash p file = keccak256 p file"

text \<open>
  utils/ens.ts. \<open>getENSProvider\<close> gives a provider for the two chains that have ENS (the
  provider is identified by its chain) and \<open>null\<close> for every other chain. The module
  keeps a cache of answers, keyed by chain and name.
\<close>

definition ENS_SUPPORTED_CHAINS :: "nat list" where
  "ENS_SUPPORTED_CHAINS = [1, 11155111]"

definition getENSProvider :: "nat \<Rightarrow> nat option" where
  "getENSProvider chainId =
     (if chainId \<notin> set ENS_SUPPORTED_CHAINS then None
      else if chainId = 11155111 then Some 11155111
      else if chainId = 1 then Some 1
      else None)"

type_synonym addressCache = "nat \<times> jsstring \<Rightarrow> jsstring option option"

text \<open>
  \<open>resolveENSName\<close>: the empty text gives \<open>null\<close>; a text that \<open>ethers.isAddress\<close>
  accepts is returned as it was typed; any other text that does not end in \<open>.eth\<close>
  gives \<open>null\<close>; a name is looked up in the cache, then through the provider, and the
  answer (or \<open>null\<close>, when the lookup throws) is cached. The result is the answer and the
  cache afterwards.
\<close>

definition resolveENSName ::
  "platform \<Rightarrow> addressCache \<Rightarrow> jsstring \<Rightarrow> nat \<Rightarrow> jsstring option \<times> addressCache" where
  "resolveENSName p cache nameOrAddress chainId =
     (if nameOrAddress = [] then (None, cache)
      else if isAddress p nameOrAddress then (Some nameOrAddress, cache)
      else if \<not> endsWith nameOrAddress (ascii ''.eth'') then (None, cache)
      else (case cache (chainId, nameOrAddress) of
              Some cached \<Rightarrow> (cached, cache)
            | None \<Rightarrow>
                (case getENSProvider chainId of
                   None \<Rightarrow> (None, cache)
                 | Some provider \<Rightarrow>
                     (case resolveName p provider nameOrAddress of
                        Inr addr \<Rightarrow> (addr, cache((chainId, nameOrAddress) := Some addr))
                      | Inl _ \<Rightarrow> (None, cache((chainId, nameOrAddress) := Some None))))))"

text \<open>
  The object that the hook \<open>useContract\<close> builds from the record the contract returns:
  the signer is a string. The timestamp is kept as the value read (\<open>Number\<close> of it is that
  value for every timestamp below \<open>2 ^ 53\<close>).
\<close>

record DocumentInfo =
  info_hash :: bytes32
  info_timestamp :: uint256
  info_signer :: jsstring
  info_signature :: bytes
  info_ipfsCid :: string

record VerificationResult =
  isValid :: bool
  documentInfo :: "DocumentInfo option"
  error :: "string option"

datatype verify_outcome = Alert string | SetVerificationResult VerificationResult

text \<open>
  The two read functions of the hook \<open>useContract\<close> that the verifier calls. Without a
  contract instance they answer \<open>false\<close> and \<open>null\<close>; the error of a call that reverts is
  thrown on.
\<close>

definition hook_isDocumentStored ::
  "platform \<Rightarrow> bool \<Rightarrow> DocumentRegistry \<Rightarrow> bytes32 \<Rightarrow> string + bool" where
  "hook_isDocumentStored p loaded reg h =
     (if \<not> loaded then Inr False
      else (case isDocumentStored reg h of
              Inl reason \<Rightarrow> Inl (callException p reason)
            | Inr stored \<Rightarrow> Inr stored))"

definition hook_getDocumentInfo ::
  "platform \<Rightarrow> bool \<Rightarrow> DocumentRegistry \<Rightarrow> bytes32 \<Rightarrow> string + DocumentInfo option" where
  "hook_getDocumentInfo p loaded reg h =
     (if \<not> loaded then Inr None
      else (case getDocumentInfo reg h of
              Inl reason \<Rightarrow> Inl (callException p reason)
            | Inr d \<Rightarrow>
                Inr (Some \<lparr>info_hash = hash d, info_timestamp = timestamp d,
                           info_signer = addressString p (signer d),
                           info_signature = signature d,
                           info_ipfsCid = or_else (ipfsCid d) []\<rparr>)))"

text \<open>The \<open>catch\<close> of \<open>handleVerify\<close>: the message it reports for an error thrown.\<close>

definition caught_message :: "string \<Rightarrow> string" where
  "caught_message msg =
     (if string_includes msg ''could not decode result data'' then
        ''Contract error: Please make sure the contract is deployed and Anvil is running.''
      else if string_includes msg ''network'' then
        ''Network error: Cannot connect to Anvil. Make sure it's running on http://localhost:8545''
      else or_else msg ''Verification failed'')"

text \<open>
  \<open>handleVerify\<close>, for the chain of the selected network, the cache of the resolver, the
  state of the hook (\<open>loaded\<close>) and the registry as it is when the two reads are made. The
  file is its bytes (\<open>None\<close>: no file selected). The recorded signer and the resolved
  text are compared after \<open>toLowerCase\<close> on each, as strings.
\<close>

definition handleVerify ::
  "platform \<Rightarrow> nat \<Rightarrow> addressCache \<Rightarrow> bool \<Rightarrow> DocumentRegistry
     \<Rightarrow> bytes option \<Rightarrow> jsstring \<Rightarrow> verify_outcome" where
  "handleVerify p chainId cache loaded reg file signerAddress =
     (case file of
        None \<Rightarrow> Alert ''Please select a file to verify''
      | Some content \<Rightarrow>
          if trim signerAddress = [] then Alert ''Please enter the signer address or ENS name''
          else (case fst (resolveENSName p cache (trim signerAddress) chainId) of
                  None \<Rightarrow>
                    SetVerificationResult
                      \<lparr>isValid = False, documentInfo = None,
                       error = Some ''Invalid address or ENS name not found. Please check and try again.''\<rparr>
                | Some resolvedAddress \<Rightarrow>
                    if resolvedAddress = [] then
                      SetVerificationResult
                        \<lparr>isValid = False, documentInfo = None,
                         error = Some ''Invalid address or ENS name not found. Please check and try again.''\<rparr>
                    else
                    (let fileHash = calculateFileHash p content
                     in case hook_isDocumentStored p loaded reg fileHash of
                          Inl msg \<Rightarrow>
                            SetVerificationResult
                              \<lparr>isValid = False, documentInfo = None,
                               error = Some (caught_message msg)\<rparr>
                        | Inr exists \<Rightarrow>
                            if \<not> exists then
                              SetVerificationResult
                                \<lparr>isValid = False, documentInfo = None,
                                 error = Some ''Document not found in registry. It may not have been signed and stored yet.''\<rparr>
                            else (case hook_getDocumentInfo p loaded reg fileHash of
                                    Inl msg \<Rightarrow>
                                      SetVerificationResult
                                        \<lparr>isValid = False, documentInfo = None,
                                         error = Some (caught_message msg)\<rparr>
                                  | Inr None \<Rightarrow>
                                      SetVerificationResult
                                        \<lparr>isValid = False, documentInfo = None,
                                         error = Some ''Document not found in blockchain''\<rparr>
                                  | Inr (Some info) \<Rightarrow>
                                      (let valid = (toLowerCase p (info_signer info) =
                                                    toLowerCase p resolvedAddress)
                                       in SetVerificationResult
                                            \<lparr>isValid = valid, documentInfo = Some info,
                                             error = (if valid then None
                                                      else Some ''Signer address does not match. The document was signed by a different address.'')\<rparr>)))))"

text \<open>
  The three results of a verification that ran to its end: the document is not in the
  registry; it is, and was signed by the address asked for; it is, and was signed by
  another address (the record, with its signer, is part of the result).
\<close>

definition not_found :: verify_outcome where
  "not_found = SetVerificationResult
     \<lparr>isValid = False, documentInfo = None,
      error = Some ''Document not found in registry. It may not have been signed and stored yet.''\<rparr>"

definition matched :: "DocumentInfo \<Rightarrow> verify_outcome" where
  "matched d = SetVerificationResult \<lparr>isValid = True, documentInfo = Some d, error = None\<rparr>"

definition mismatch :: "DocumentInfo \<Rightarrow> verify_outcome" where
  "mismatch d = SetVerificationResult
     \<lparr>isValid = False, documentInfo = Some d,
      error = Some ''Signer address does not match. The document was signed by a different address.''\<rparr>"

section \<open>Example data\<close>

text \<open>
  Concrete environments, call sequences and registries on which the theorems below are
  evaluated: a registry holding one record (fingerprint 7, signer 5), and a sequence of
  three store transactions of which the second repeats the fingerprint of the first.
\<close>

definition env_at :: "uint256 \<Rightarrow> address \<Rightarrow> txenv" where
  "env_at t c = \<lparr>block_timestamp = t, msg_sender = c\<rparr>"

definition one_stored :: DocumentRegistry where
  "one_stored = run deployed [(env_at 1000 5, StoreDocumentHash 7 1000 [1] 5 ''Qm'')]"

definition three_calls :: "(txenv \<times> call) list" where
  "three_calls =
     [(env_at 1000 5, StoreDocumentHash 7 1000 [1] 5 ''Qm''),
      (env_at 1001 6, StoreDocumentHash 7 900 [2, 3] 6 []),
      (env_at 1002 6, StoreDocumentHash 9 1002 [4] 6 [])]"

text \<open>
  A run environment whose publisher throws a network error at every call; wallet,
  contract and chain are in order.
\<close>

definition always_failing :: collaborators where
  "always_failing =
     \<lparr>account = Some 5, isConnected = True, signMessage = (\<lambda>_. Inr [1]),
      getBlockchainTimestamp = 1000,
      uploadToIPFS = (\<lambda>_. Inl \<lparr>errorType = NETWORK_ERROR, message = ''Network error''\<rparr>),
      contractLoaded = True, txEnvironment = env_at 1000 5, transactionHash = ''0xabc'',
      revertMessage = (\<lambda>reason. ''execution reverted: '' @ reason)\<rparr>"

text \<open>
  For the verifier, an instance of the platform. The digest is a stand-in (the length of
  the content). The other functions are what JavaScript and ethers compute on the texts
  used below, which consist of the digits 0 to 9 and the prefix \<open>0x\<close>: an address
  without letters is handed over by ethers as \<open>0x\<close> and its 40 digits (its checksum can
  raise no letter), \<open>toLowerCase\<close> leaves such a text as it is, and \<open>ethers.isAddress\<close>
  accepts 40 hexadecimal digits with and without the prefix. No name resolves, and the
  resolver's cache is empty.
\<close>

definition length_digest :: "bytes \<Rightarrow> bytes32" where
  "length_digest b = of_nat (length b)"

definition hexDigit :: "nat \<Rightarrow> 16 word" where
  "hexDigit d = (if d < 10 then of_nat (48 + d) else of_nat (87 + d))"

definition hex40 :: "address \<Rightarrow> jsstring" where
  "hex40 a = map (\<lambda>k. hexDigit ((unat a div 16 ^ k) mod 16)) (rev [0..<40])"

definition isDigit :: "16 word \<Rightarrow> bool" where
  "isDigit u \<longleftrightarrow> 0x30 \<le> u \<and> u \<le> 0x39"

definition digits_isAddress :: "jsstring \<Rightarrow> bool" where
  "digits_isAddress s \<longleftrightarrow>
     (length s = 40 \<and> list_all isDigit s) \<or>
     (length s = 42 \<and> take 2 s = ascii ''0x'' \<and> list_all isDigit (drop 2 s))"

definition ascii_toLowerCase :: "jsstring \<Rightarrow> jsstring" where
  "ascii_toLowerCase s = map (\<lambda>u. if 0x41 \<le> u \<and> u \<le> 0x5A then u + 0x20 else u) s"

definition plain_platform :: platform where
  "plain_platform =
     \<lparr>keccak256 = length_digest, isAddress = digits_isAddress,
      toLowerCase = ascii_toLowerCase,
      addressString = (\<lambda>a. ascii ''0x'' @ hex40 a),
      resolveName = (\<lambda>_ _. Inr None),
      callException = (\<lambda>reason. ''execution reverted: '' @ reason)\<rparr>"

definition no_cache :: addressCache where
  "no_cache = (\<lambda>_. None)"

definition info_of_seven :: DocumentInfo where
  "info_of_seven =
     \<lparr>info_hash = 7, info_timestamp = 1000,
      info_signer = ascii ''0x0000000000000000000000000000000000000005'',
      info_signature = [1], info_ipfsCid = ''Qm''\<rparr>"

section \<open>Properties of the registry\<close>

lemma isDocumentStored_iff: "isDocumentStored s h = Inr b \<longleftrightarrow> b = (signer (documents s h) \<noteq> 0)"
  by (auto simp: isDocumentStored_def)

lemma storeDocumentHash_Inr_state:
  "storeDocumentHash e s h ts sg who cid = Inr (s', evs) \<Longrightarrow>
     s' = s\<lparr>documents := (documents s)
                 (h := \<lparr>hash = h, timestamp = ts, signer = who, signature = sg, ipfsCid = cid\<rparr>),
            documentHashes := documentHashes s @ [h]\<rparr> \<and>
     evs = [DocumentStored h who ts sg] \<and>
     signer (documents s h) = 0 \<and> 0 < ts \<and> ts \<le> block_timestamp e \<and>
     0 < length sg \<and> length sg \<le> 2048 \<and> who \<noteq> 0"
  by (auto simp: storeDocumentHash_def documentNotExists_def split: if_splits)

lemma transact_keeps_stored:
  "signer (documents s h) \<noteq> 0 \<Longrightarrow> documents (transact s c) h = documents s h"
proof (cases c)
  case (Pair e k)
  assume st: "signer (documents s h) \<noteq> 0"
  show ?thesis
  proof (cases k)
    case (StoreDocumentHash h' ts sg who cid)
    show ?thesis
    proof (cases "storeDocumentHash e s h' ts sg who cid")
      case (Inl m)
      with Pair StoreDocumentHash show ?thesis by simp
    next
      case (Inr r)
      obtain s' evs where r: "r = (s', evs)" by (cases r)
      from Inr r storeDocumentHash_Inr_state [of e s h' ts sg who cid s' evs]
      have "signer (documents s h') = 0" and
        "s' = s\<lparr>documents := (documents s)
                 (h' := \<lparr>hash = h', timestamp = ts, signer = who, signature = sg, ipfsCid = cid\<rparr>),
            documentHashes := documentHashes s @ [h']\<rparr>" by simp_all
      with st have "h' \<noteq> h" and "documents s' h = documents s h" by auto
      with Pair StoreDocumentHash Inr r show ?thesis by simp
    qed
  next
    case (VerifyDocument h' who sg)
    with Pair show ?thesis by simp
  qed
qed

lemma run_keeps_stored:
  "signer (documents s h) \<noteq> 0 \<Longrightarrow> documents (run s cs) h = documents s h"
proof (induction cs arbitrary: s)
  case Nil
  show ?case by simp
next
  case (Cons c cs)
  from Cons.prems have eq: "documents (transact s c) h = documents s h"
    by (rule transact_keeps_stored)
  with Cons.prems have "signer (documents (transact s c) h) \<noteq> 0" by simp
  from Cons.IH [OF this] eq show ?case by simp
qed

lemma transact_well_formed: "well_formed s \<Longrightarrow> well_formed (transact s c)"
proof (cases c)
  case (Pair e k)
  assume wf: "well_formed s"
  show ?thesis
  proof (cases k)
    case (StoreDocumentHash h' ts sg who cid)
    show ?thesis
    proof (cases "storeDocumentHash e s h' ts sg who cid")
      case (Inl m)
      with Pair StoreDocumentHash wf show ?thesis by simp
    next
      case (Inr r)
      obtain s' evs where r: "r = (s', evs)" by (cases r)
      from Inr r storeDocumentHash_Inr_state [of e s h' ts sg who cid s' evs]
      have s': "s' = s\<lparr>documents := (documents s)
                 (h' := \<lparr>hash = h', timestamp = ts, signer = who, signature = sg, ipfsCid = cid\<rparr>),
            documentHashes := documentHashes s @ [h']\<rparr>"
        and ok: "0 < ts" "0 < length sg" "length sg \<le> 2048" by simp_all
      from wf ok have "well_formed s'" unfolding s' well_formed_def by simp
      with Pair StoreDocumentHash Inr r show ?thesis by simp
    qed
  next
    case (VerifyDocument h' who sg)
    with Pair wf show ?thesis by simp
  qed
qed

lemma run_well_formed: "well_formed s \<Longrightarrow> well_formed (run s cs)"
  by (induction cs arbitrary: s) (simp_all add: transact_well_formed)

lemma deployed_well_formed: "well_formed deployed"
  by (simp add: well_formed_def deployed_def zero_Document_def)

lemma documentHashes_run:
  "documentHashes (run s cs) = documentHashes s @ successful_puts s cs"
proof (induction s cs rule: successful_puts.induct)
  case (1 s)
  show ?case by simp
next
  case (2 s e h ts sg who cid cs)
  show ?case
  proof (cases "storeDocumentHash e s h ts sg who cid")
    case (Inl m)
    with 2(1) show ?thesis by simp
  next
    case (Inr r)
    obtain s' evs where r: "r = (s', evs)" by (cases r)
    from Inr r storeDocumentHash_Inr_state [of e s h ts sg who cid s' evs]
    have "documentHashes s' = documentHashes s @ [h]" by simp
    with 2(2) [OF Inr r [symmetric]] Inr r show ?thesis by simp
  qed
next
  case (3 s e h who sg cs)
  then show ?case by simp
qed

lemma one_stored_eq:
  "one_stored = \<lparr>documents = (\<lambda>_. zero_Document)
       (7 := \<lparr>hash = 7, timestamp = 1000, signer = 5, signature = [1], ipfsCid = ''Qm''\<rparr>),
     documentHashes = [7]\<rparr>"
  by (simp add: one_stored_def env_at_def deployed_def storeDocumentHash_def
      documentNotExists_def zero_Document_def)

text \<open>
  Claim C2. A \<open>storeDocumentHash\<close> for a fingerprint that the registry already holds
  reverts with "Document already exists", whatever the timestamp, signature, signer and
  CID of the call (and whatever its environment), and the transaction leaves the storage
  as it found it.
\<close>

theorem put_same_fingerprint_fails:
  assumes "isDocumentStored s f = Inr True"
  shows "storeDocumentHash e s f ts sg who cid = Inl ''Document already exists'' \<and>
         transact s (e, StoreDocumentHash f ts sg who cid) = s"
  using assms by (simp add: isDocumentStored_def storeDocumentHash_def documentNotExists_def)

theorem put_same_fingerprint_fails_witness:
  "isDocumentStored one_stored 7 = Inr True \<and>
   storeDocumentHash (env_at 2000 9) one_stored 7 1500 [2, 3] 9 ''other'' =
     Inl ''Document already exists'' \<and>
   transact one_stored (env_at 2000 9, StoreDocumentHash 7 1500 [2, 3] 9 ''other'') = one_stored"
proof -
  have h: "isDocumentStored one_stored 7 = Inr True"
    by (simp add: one_stored_eq isDocumentStored_def)
  from put_same_fingerprint_fails [OF h, of "env_at 2000 9" 1500 "[2, 3]" 9 "''other''"] h
  show ?thesis by simp
qed

text \<open>
  Claim C4. In the storage reached from deployment by any sequence of transactions, the
  count is the number of store transactions that returned, \<open>getDocumentHashByIndex i\<close>
  for \<open>i\<close> below the count is the fingerprint of the \<open>i\<close>-th of them in the order they
  were executed, and for every \<open>i\<close> from the count on (the count itself included) it
  reverts with "Index out of bounds".
\<close>

theorem enumeration_order:
  "getDocumentCount (run deployed cs) = Inr (length (successful_puts deployed cs)) \<and>
   (\<forall>i. unat i < length (successful_puts deployed cs) \<longrightarrow>
        getDocumentHashByIndex (run deployed cs) i = Inr (successful_puts deployed cs ! unat i)) \<and>
   (\<forall>i. length (successful_puts deployed cs) \<le> unat i \<longrightarrow>
        getDocumentHashByIndex (run deployed cs) i = Inl ''Index out of bounds'')"
proof -
  have "documentHashes (run deployed cs) = successful_puts deployed cs"
    using documentHashes_run [of deployed cs] by (simp add: deployed_def)
  then show ?thesis
    by (simp add: getDocumentCount_def getDocumentHashByIndex_def)
qed

lemma three_calls_puts: "successful_puts deployed three_calls = [7, 9]"
  by (simp add: three_calls_def env_at_def deployed_def storeDocumentHash_def
      documentNotExists_def zero_Document_def)

theorem enumeration_order_witness:
  "successful_puts deployed three_calls = [7, 9] \<and>
   getDocumentCount (run deployed three_calls) = Inr 2 \<and>
   unat (1 :: uint256) < length (successful_puts deployed three_calls) \<and>
   getDocumentHashByIndex (run deployed three_calls) 1 = Inr 9 \<and>
   length (successful_puts deployed three_calls) \<le> unat (2 :: uint256) \<and>
   getDocumentHashByIndex (run deployed three_calls) 2 = Inl ''Index out of bounds''"
  using enumeration_order [of three_calls] three_calls_puts
  by simp

text \<open>
  Claim C7. In every storage, \<open>isDocumentStored f\<close> answers true exactly when
  \<open>getDocumentInfo f\<close> returns a record and the signer of that record is not the zero
  address; \<open>isDocumentStored\<close> always returns.
\<close>

theorem exists_iff_get:
  "(isDocumentStored s f = Inr True \<longleftrightarrow>
      (\<exists>d. getDocumentInfo s f = Inr d \<and> signer d \<noteq> 0)) \<and>
   (\<exists>b. isDocumentStored s f = Inr b)"
  by (auto simp: isDocumentStored_def getDocumentInfo_def documentExists_def)

theorem exists_iff_get_witness:
  "isDocumentStored one_stored 7 = Inr True \<and>
   (\<exists>d. getDocumentInfo one_stored 7 = Inr d \<and> signer d \<noteq> 0) \<and>
   isDocumentStored one_stored 8 = Inr False \<and>
   getDocumentInfo one_stored 8 = Inl ''Document does not exist''"
proof -
  have a: "isDocumentStored one_stored 7 = Inr True"
    by (simp add: one_stored_eq isDocumentStored_def)
  have b: "isDocumentStored one_stored 8 = Inr False"
    by (simp add: one_stored_eq isDocumentStored_def zero_Document_def)
  have c: "getDocumentInfo one_stored 8 = Inl ''Document does not exist''"
    by (simp add: one_stored_eq getDocumentInfo_def documentExists_def zero_Document_def)
  from exists_iff_get [of one_stored 7] a b c show ?thesis by simp
qed

text \<open>
  Claim C9. The flag \<open>verifyDocument\<close> returns is the conjunction of: a record exists for
  the hash, its signer is the address supplied, the stored signature is not empty, the
  supplied signature is not empty. The bytes of the supplied signature play no other
  part, so in every reachable storage, for a stored record, any non-empty signature is
  accepted when the supplied address is the recorded signer.
\<close>

theorem verifyDocument_compares_recorded_address:
  "fst (verifyDocument s h who sg) =
     (signer (documents s h) \<noteq> 0 \<and> signer (documents s h) = who \<and>
      signature (documents s h) \<noteq> [] \<and> sg \<noteq> []) \<and>
   (isDocumentStored (run deployed cs) h = Inr True \<and>
    who = signer (documents (run deployed cs) h) \<and> sg \<noteq> [] \<longrightarrow>
      verifyDocument (run deployed cs) h who sg = (True, [DocumentVerified h who True]))"
proof -
  have wf: "well_formed (run deployed cs)"
    by (rule run_well_formed [OF deployed_well_formed])
  have 1: "fst (verifyDocument s h who sg) =
     (signer (documents s h) \<noteq> 0 \<and> signer (documents s h) = who \<and>
      signature (documents s h) \<noteq> [] \<and> sg \<noteq> [])"
    by (simp add: verifyDocument_def Let_def)
  have 2: "verifyDocument (run deployed cs) h who sg = (True, [DocumentVerified h who True])"
    if "isDocumentStored (run deployed cs) h = Inr True"
      and "who = signer (documents (run deployed cs) h)" and "sg \<noteq> []"
  proof -
    from that(1) have st: "signer (documents (run deployed cs) h) \<noteq> 0"
      by (simp add: isDocumentStored_def)
    with wf have "0 < length (signature (documents (run deployed cs) h))"
      by (simp add: well_formed_def)
    with st that(2,3) show ?thesis by (simp add: verifyDocument_def Let_def)
  qed
  from 1 2 show ?thesis by blast
qed

theorem verifyDocument_compares_recorded_address_witness:
  "isDocumentStored (run deployed three_calls) 9 = Inr True \<and>
   signer (documents (run deployed three_calls) 9) = 6 \<and>
   verifyDocument (run deployed three_calls) 9 6 [255] = (True, [DocumentVerified 9 6 True]) \<and>
   fst (verifyDocument (run deployed three_calls) 9 6 []) = False"
proof -
  have r: "run deployed three_calls = \<lparr>documents = (\<lambda>_. zero_Document)
       (7 := \<lparr>hash = 7, timestamp = 1000, signer = 5, signature = [1], ipfsCid = ''Qm''\<rparr>,
        9 := \<lparr>hash = 9, timestamp = 1002, signer = 6, signature = [4], ipfsCid = []\<rparr>),
     documentHashes = [7, 9]\<rparr>"
    by (simp add: three_calls_def env_at_def deployed_def storeDocumentHash_def
      documentNotExists_def zero_Document_def)
  have a: "isDocumentStored (run deployed three_calls) 9 = Inr True"
    by (simp add: r isDocumentStored_def)
  have b: "signer (documents (run deployed three_calls) 9) = 6"
    by (simp add: r)
  from verifyDocument_compares_recorded_address [of "run deployed three_calls" 9 6 "[255]" three_calls]
    verifyDocument_compares_recorded_address [of "run deployed three_calls" 9 6 "[]" three_calls]
    a b show ?thesis by simp
qed

text \<open>
  Claim C10. \<open>storeDocumentHash\<close> does not look at its caller: for every sender \<open>c\<close>, a
  call whose fingerprint is fresh, whose timestamp is positive and not in the future,
  whose signature has 1 to 2048 bytes and whose signer is not the zero address returns,
  and the record it writes names the signer given as argument, also when \<open>c\<close> is another
  address.
\<close>

theorem put_ignores_caller:
  assumes "isDocumentStored s h = Inr False"
    and "0 < ts" and "ts \<le> block_timestamp e"
    and "1 \<le> length sg" and "length sg \<le> 2048"
    and "who \<noteq> 0"
  shows "\<exists>s' evs. storeDocumentHash (e\<lparr>msg_sender := c\<rparr>) s h ts sg who cid = Inr (s', evs) \<and>
           documents s' h =
             \<lparr>hash = h, timestamp = ts, signer = who, signature = sg, ipfsCid = cid\<rparr>"
  using assms
  by (auto simp: isDocumentStored_def storeDocumentHash_def documentNotExists_def)

theorem put_ignores_caller_witness:
  "isDocumentStored one_stored 8 = Inr False \<and> (0 :: uint256) < 1500 \<and>
   (1500 :: uint256) \<le> block_timestamp (env_at 2000 0) \<and>
   1 \<le> length [2, 3 :: 8 word] \<and> length [2, 3 :: 8 word] \<le> 2048 \<and> (9 :: address) \<noteq> 0 \<and>
   (4 :: address) \<noteq> 9 \<and>
   (\<exists>s' evs. storeDocumentHash (env_at 2000 4) one_stored 8 1500 [2, 3] 9 ''x'' = Inr (s', evs) \<and>
      signer (documents s' 8) = 9)"
proof -
  have a: "isDocumentStored one_stored 8 = Inr False"
    by (simp add: one_stored_eq isDocumentStored_def zero_Document_def)
  have b: "(0 :: uint256) < 1500" "(1500 :: uint256) \<le> block_timestamp (env_at 2000 0)"
    "1 \<le> length [2, 3 :: 8 word]" "length [2, 3 :: 8 word] \<le> 2048" "(9 :: address) \<noteq> 0"
    by (simp_all add: env_at_def)
  have c: "(env_at 2000 0)\<lparr>msg_sender := 4\<rparr> = env_at 2000 4" by (simp add: env_at_def)
  from put_ignores_caller [OF a b, of 4 "''x''"] obtain s' evs where
    "storeDocumentHash (env_at 2000 4) one_stored 8 1500 [2, 3] 9 ''x'' = Inr (s', evs)"
    "documents s' 8 = \<lparr>hash = 8, timestamp = 1500, signer = 9, signature = [2, 3], ipfsCid = ''x''\<rparr>"
    unfolding c by blast
  then have "\<exists>s' evs. storeDocumentHash (env_at 2000 4) one_stored 8 1500 [2, 3] 9 ''x'' = Inr (s', evs) \<and>
      signer (documents s' 8) = 9" by simp
  with a b show ?thesis by simp
qed

text \<open>
  Claim C5 says that every store call whose timestamp lies after the block time fails
  with the timestamp error. The modifier runs before the timestamp checks: on the
  registry holding fingerprint 7, a call for fingerprint 7 with timestamp 2000 at block
  time 1000 reverts with "Document already exists".
\<close>

theorem future_timestamp_on_stored_fingerprint:
  "isDocumentStored one_stored 7 = Inr True \<and>
   block_timestamp (env_at 1000 5) < (2000 :: uint256) \<and>
   storeDocumentHash (env_at 1000 5) one_stored 7 2000 [1] 5 [] = Inl ''Document already exists''"
  by (simp add: one_stored_eq isDocumentStored_def env_at_def storeDocumentHash_def
      documentNotExists_def)

text \<open>
  Claim C5, as the contract has it. For a fingerprint that is not stored, a timestamp
  after the block time reverts with "Timestamp cannot be in the future" and the
  timestamp 0 reverts with "Timestamp must be greater than zero"; for a stored
  fingerprint the call reverts with "Document already exists" whatever the timestamp. So
  a call with timestamp 0 always fails, and a call returns only when its timestamp is
  positive and not after the block time.
\<close>

theorem timestamp_bound:
  "(isDocumentStored s h = Inr False \<and> block_timestamp e < ts \<longrightarrow>
      storeDocumentHash e s h ts sg who cid = Inl ''Timestamp cannot be in the future'') \<and>
   (isDocumentStored s h = Inr False \<longrightarrow>
      storeDocumentHash e s h 0 sg who cid = Inl ''Timestamp must be greater than zero'') \<and>
   (isDocumentStored s h = Inr True \<longrightarrow>
      storeDocumentHash e s h ts sg who cid = Inl ''Document already exists'') \<and>
   (\<exists>msg. storeDocumentHash e s h 0 sg who cid = Inl msg) \<and>
   (\<forall>r. storeDocumentHash e s h ts sg who cid = Inr r \<longrightarrow> 0 < ts \<and> ts \<le> block_timestamp e)"
proof -
  have a: "storeDocumentHash e s h ts sg who cid = Inl ''Timestamp cannot be in the future''"
    if "isDocumentStored s h = Inr False" and "block_timestamp e < ts"
  proof -
    have "0 \<le> block_timestamp e" by simp
    from this that(2) have "0 < ts" by (rule le_less_trans)
    moreover from that(2) have "\<not> ts \<le> block_timestamp e" by simp
    ultimately show ?thesis using that(1)
      by (simp add: isDocumentStored_def storeDocumentHash_def documentNotExists_def)
  qed
  have b: "storeDocumentHash e s h 0 sg who cid = Inl ''Timestamp must be greater than zero''"
    if "isDocumentStored s h = Inr False"
    using that by (simp add: isDocumentStored_def storeDocumentHash_def documentNotExists_def)
  have c: "storeDocumentHash e s h ts sg who cid = Inl ''Document already exists''"
    if "isDocumentStored s h = Inr True"
    using that by (simp add: isDocumentStored_def storeDocumentHash_def documentNotExists_def)
  have d: "\<exists>msg. storeDocumentHash e s h 0 sg who cid = Inl msg"
    by (simp add: storeDocumentHash_def documentNotExists_def)
  have f: "0 < ts \<and> ts \<le> block_timestamp e" if "storeDocumentHash e s h ts sg who cid = Inr r" for r
    using that by (auto simp: storeDocumentHash_def documentNotExists_def split: if_splits)
  from a b c d f show ?thesis by blast
qed

theorem timestamp_bound_witness:
  "isDocumentStored one_stored 8 = Inr False \<and>
   block_timestamp (env_at 1000 5) < (2000 :: uint256) \<and>
   storeDocumentHash (env_at 1000 5) one_stored 8 2000 [1] 5 [] =
     Inl ''Timestamp cannot be in the future'' \<and>
   storeDocumentHash (env_at 1000 5) one_stored 8 0 [1] 5 [] =
     Inl ''Timestamp must be greater than zero'' \<and>
   isDocumentStored one_stored 7 = Inr True \<and>
   storeDocumentHash (env_at 1000 5) one_stored 7 0 [1] 5 [] = Inl ''Document already exists'' \<and>
   (\<exists>r. storeDocumentHash (env_at 1000 5) one_stored 8 1000 [1] 5 [] = Inr r) \<and>
   (0 :: uint256) < 1000 \<and> (1000 :: uint256) \<le> block_timestamp (env_at 1000 5)"
proof -
  have a: "isDocumentStored one_stored 8 = Inr False" "isDocumentStored one_stored 7 = Inr True"
    by (simp_all add: one_stored_eq isDocumentStored_def zero_Document_def)
  have b: "block_timestamp (env_at 1000 5) < (2000 :: uint256)"
    by (simp add: env_at_def)
  have c: "\<exists>r. storeDocumentHash (env_at 1000 5) one_stored 8 1000 [1] 5 [] = Inr r"
    by (simp add: one_stored_eq env_at_def storeDocumentHash_def documentNotExists_def
        zero_Document_def)
  from timestamp_bound [of one_stored 8 "env_at 1000 5" 2000 "[1]" 5 "[]"]
    timestamp_bound [of one_stored 7 "env_at 1000 5" 0 "[1]" 5 "[]"]
    timestamp_bound [of one_stored 8 "env_at 1000 5" 1000 "[1]" 5 "[]"]
    a b c show ?thesis by auto
qed

text \<open>
  Claim C6 says that every store call whose signature is not 1 to 2048 bytes long fails
  with the signature error. The timestamp checks run before the length check: on the
  freshly deployed registry, a call with the empty signature and timestamp 0 reverts with
  "Timestamp must be greater than zero".
\<close>

theorem empty_signature_with_zero_timestamp:
  "\<not> (1 \<le> length ([] :: bytes) \<and> length ([] :: bytes) \<le> 2048) \<and>
   storeDocumentHash (env_at 1000 5) deployed 7 0 [] 5 [] =
     Inl ''Timestamp must be greater than zero''"
  by (simp add: deployed_def zero_Document_def storeDocumentHash_def documentNotExists_def)

text \<open>
  Claim C6, as the contract has it. Every store call with a signature that is not 1 to
  2048 bytes long fails, with the message of the first check it violates: "Document
  already exists" for a stored fingerprint, else "Timestamp must be greater than zero"
  for the timestamp 0, else "Timestamp cannot be in the future" for a timestamp after the
  block time, else "Invalid signature". So a call that passes the freshness and
  timestamp checks reverts with "Invalid signature" unless its signature is 1 to 2048
  bytes long, and a call whose signature has such a length never reverts with that
  message. The empty signature is always rejected, and in every reachable storage each
  stored record has a signature of 1 to 2048 bytes.
\<close>

theorem signature_length_bound:
  "(\<not> (1 \<le> length sg \<and> length sg \<le> 2048) \<longrightarrow>
      storeDocumentHash e s h ts sg who cid =
        Inl (if isDocumentStored s h = Inr True then ''Document already exists''
             else if ts = 0 then ''Timestamp must be greater than zero''
             else if block_timestamp e < ts then ''Timestamp cannot be in the future''
             else ''Invalid signature'')) \<and>
   (isDocumentStored s h = Inr False \<and> 0 < ts \<and> ts \<le> block_timestamp e \<and>
    \<not> (1 \<le> length sg \<and> length sg \<le> 2048) \<longrightarrow>
      storeDocumentHash e s h ts sg who cid = Inl ''Invalid signature'') \<and>
   (1 \<le> length sg \<and> length sg \<le> 2048 \<longrightarrow>
      storeDocumentHash e s h ts sg who cid \<noteq> Inl ''Invalid signature'') \<and>
   (\<exists>msg. storeDocumentHash e s h ts [] who cid = Inl msg) \<and>
   (isDocumentStored (run deployed cs) h = Inr True \<longrightarrow>
      1 \<le> length (signature (documents (run deployed cs) h)) \<and>
      length (signature (documents (run deployed cs) h)) \<le> 2048)"
proof -
  have z: "\<not> 0 < ts \<longleftrightarrow> ts = 0" by (simp add: word_gt_0)
  have l: "\<not> ts \<le> block_timestamp e \<longleftrightarrow> block_timestamp e < ts" by (simp add: not_le)
  have p: "storeDocumentHash e s h ts sg who cid =
        Inl (if isDocumentStored s h = Inr True then ''Document already exists''
             else if ts = 0 then ''Timestamp must be greater than zero''
             else if block_timestamp e < ts then ''Timestamp cannot be in the future''
             else ''Invalid signature'')"
    if "\<not> (1 \<le> length sg \<and> length sg \<le> 2048)" for sg
    using that
    by (auto simp: isDocumentStored_def storeDocumentHash_def documentNotExists_def
        Suc_le_eq z l)
  have a: "storeDocumentHash e s h ts sg who cid = Inl ''Invalid signature''"
    if "isDocumentStored s h = Inr False" "0 < ts" "ts \<le> block_timestamp e"
      "\<not> (1 \<le> length sg \<and> length sg \<le> 2048)"
    using that
    by (auto simp: isDocumentStored_def storeDocumentHash_def documentNotExists_def Suc_le_eq)
  have u: "storeDocumentHash e s h ts sg who cid \<noteq> Inl ''Invalid signature''"
    if "1 \<le> length sg \<and> length sg \<le> 2048"
    using that
    by (auto simp: storeDocumentHash_def documentNotExists_def Suc_le_eq)
  have c: "\<exists>msg. storeDocumentHash e s h ts [] who cid = Inl msg"
    using p [of "[]"] by simp
  have d: "1 \<le> length (signature (documents (run deployed cs) h)) \<and>
      length (signature (documents (run deployed cs) h)) \<le> 2048"
    if "isDocumentStored (run deployed cs) h = Inr True"
  proof -
    have "well_formed (run deployed cs)"
      by (rule run_well_formed [OF deployed_well_formed])
    moreover from that have "signer (documents (run deployed cs) h) \<noteq> 0"
      by (simp add: isDocumentStored_def)
    ultimately show ?thesis by (simp add: well_formed_def Suc_le_eq)
  qed
  from p [of sg] a u c d show ?thesis by blast
qed

theorem signature_length_bound_witness:
  "\<not> (1 \<le> length (replicate 2049 (0 :: 8 word)) \<and> length (replicate 2049 (0 :: 8 word)) \<le> 2048) \<and>
   isDocumentStored one_stored 8 = Inr False \<and> (0 :: uint256) < 900 \<and>
   (900 :: uint256) \<le> block_timestamp (env_at 1000 5) \<and>
   storeDocumentHash (env_at 1000 5) one_stored 8 900 (replicate 2049 0) 5 [] =
     Inl ''Invalid signature'' \<and>
   storeDocumentHash (env_at 1000 5) one_stored 8 2000 (replicate 2049 0) 5 [] =
     Inl ''Timestamp cannot be in the future'' \<and>
   storeDocumentHash (env_at 1000 5) one_stored 8 0 (replicate 2049 0) 5 [] =
     Inl ''Timestamp must be greater than zero'' \<and>
   isDocumentStored one_stored 7 = Inr True \<and>
   storeDocumentHash (env_at 1000 5) one_stored 7 900 (replicate 2049 0) 5 [] =
     Inl ''Document already exists'' \<and>
   1 \<le> length [1 :: 8 word] \<and> length [1 :: 8 word] \<le> 2048 \<and>
   storeDocumentHash (env_at 1000 5) one_stored 8 900 [1] 0 [] \<noteq> Inl ''Invalid signature'' \<and>
   isDocumentStored (run deployed three_calls) 9 = Inr True \<and>
   1 \<le> length (signature (documents (run deployed three_calls) 9)) \<and>
   length (signature (documents (run deployed three_calls) 9)) \<le> 2048"
proof -
  have a: "isDocumentStored one_stored 8 = Inr False" "isDocumentStored one_stored 7 = Inr True"
    by (simp_all add: one_stored_eq isDocumentStored_def zero_Document_def)
  have b: "(0 :: uint256) < 900" "(900 :: uint256) \<le> block_timestamp (env_at 1000 5)"
    "\<not> (1 \<le> length (replicate 2049 (0 :: 8 word)) \<and> length (replicate 2049 (0 :: 8 word)) \<le> 2048)"
    "1 \<le> length [1 :: 8 word]" "length [1 :: 8 word] \<le> 2048"
    by (simp_all add: env_at_def)
  have t: "\<not> block_timestamp (env_at 1000 5) < (900 :: uint256)"
    "block_timestamp (env_at 1000 5) < (2000 :: uint256)"
    by (simp_all add: env_at_def)
  have c: "isDocumentStored (run deployed three_calls) 9 = Inr True"
    by (simp add: three_calls_def env_at_def deployed_def storeDocumentHash_def
      documentNotExists_def zero_Document_def isDocumentStored_def)
  note w1 = signature_length_bound [of "replicate 2049 0" "env_at 1000 5" one_stored 8 900 5 "[]" three_calls]
  note w2 = signature_length_bound [of "replicate 2049 0" "env_at 1000 5" one_stored 8 2000 5 "[]" three_calls]
  note w3 = signature_length_bound [of "replicate 2049 0" "env_at 1000 5" one_stored 8 0 5 "[]" three_calls]
  note w4 = signature_length_bound [of "replicate 2049 0" "env_at 1000 5" one_stored 7 900 5 "[]" three_calls]
  note w5 = signature_length_bound [of "[1]" "env_at 1000 5" one_stored 8 900 0 "[]" three_calls]
  note w6 = signature_length_bound [of "[]" "env_at 1000 5" "run deployed three_calls" 9 1 5 "[]" three_calls]
  have r1: "storeDocumentHash (env_at 1000 5) one_stored 8 900 (replicate 2049 0) 5 [] =
     Inl ''Invalid signature''" using w1 a b by blast
  have r2: "storeDocumentHash (env_at 1000 5) one_stored 8 2000 (replicate 2049 0) 5 [] =
     Inl ''Timestamp cannot be in the future''" using w2 a b(3) t by simp
  have r3: "storeDocumentHash (env_at 1000 5) one_stored 8 0 (replicate 2049 0) 5 [] =
     Inl ''Timestamp must be greater than zero''" using w3 a b(3) by simp
  have r4: "storeDocumentHash (env_at 1000 5) one_stored 7 900 (replicate 2049 0) 5 [] =
     Inl ''Document already exists''" using w4 a b(3) by simp
  have r5: "storeDocumentHash (env_at 1000 5) one_stored 8 900 [1] 0 [] \<noteq> Inl ''Invalid signature''"
    using w5 b(4,5) by blast
  have r6: "1 \<le> length (signature (documents (run deployed three_calls) 9)) \<and>
   length (signature (documents (run deployed three_calls) 9)) \<le> 2048" using w6 c by blast
  from a b c r1 r2 r3 r4 r5 r6 show ?thesis by blast
qed

section \<open>Properties of the signing workflow\<close>

lemma maxRetries_3: "maxRetries (ipfs UPLOAD_CONFIG) = 3" "retryDelay (ipfs UPLOAD_CONFIG) = 2000"
  by (simp_all add: UPLOAD_CONFIG_def)

lemma retry_after_failure:
  assumes "uploadToIPFS w a = Inl err" and "a < 3"
  shows "uploadToIPFSWithRetry w a =
     ([SetIpfsStatus Loading, uploading a, CallUploadToIPFS, Wait 2000] @
      fst (uploadToIPFSWithRetry w (Suc a)), snd (uploadToIPFSWithRetry w (Suc a)))"
  using assms
  by (subst uploadToIPFSWithRetry.simps)
     (simp add: Let_def maxRetries_3 uploading_def split: prod.split)

lemma give_up_after_last_failure:
  assumes "uploadToIPFS w a = Inl err" and "\<not> a < 3"
  shows "uploadToIPFSWithRetry w a =
     ([SetIpfsStatus Loading, uploading a, CallUploadToIPFS,
       SetIpfsProgress \<lparr>ipfs_status = Ipfs_error, progress = 0, ipfs_cid = None,
                        ipfs_error = Some (message err), retryAttempt = Some a\<rparr>,
       SetIpfsStatus Error],
      Inl (message err))"
  using assms
  by (subst uploadToIPFSWithRetry.simps)
     (simp add: Let_def maxRetries_3 uploading_def getIPFSErrorMessage_def)

lemma retry_trace_when_all_fail:
  assumes "\<And>k. k \<le> 3 \<Longrightarrow> uploadToIPFS w k = Inl (errs k)"
  shows "uploadToIPFSWithRetry w 0 =
      ([SetIpfsStatus Loading, uploading 0, CallUploadToIPFS, Wait 2000,
        SetIpfsStatus Loading, uploading 1, CallUploadToIPFS, Wait 2000,
        SetIpfsStatus Loading, uploading 2, CallUploadToIPFS, Wait 2000,
        SetIpfsStatus Loading, uploading 3, CallUploadToIPFS,
        SetIpfsProgress \<lparr>ipfs_status = Ipfs_error, progress = 0, ipfs_cid = None,
                         ipfs_error = Some (message (errs 3)), retryAttempt = Some 3\<rparr>,
        SetIpfsStatus Error],
       Inl (message (errs 3)))"
proof -
  have n: "(1::nat) = Suc 0" "(2::nat) = Suc (Suc 0)" "(3::nat) = Suc (Suc (Suc 0))"
    by simp_all
  have e: "uploadToIPFS w 0 = Inl (errs 0)" "uploadToIPFS w (Suc 0) = Inl (errs (Suc 0))"
    "uploadToIPFS w (Suc (Suc 0)) = Inl (errs (Suc (Suc 0)))"
    "uploadToIPFS w (Suc (Suc (Suc 0))) = Inl (errs (Suc (Suc (Suc 0))))"
    by (simp_all add: assms)
  have r3: "uploadToIPFSWithRetry w (Suc (Suc (Suc 0))) =
     ([SetIpfsStatus Loading, uploading 3, CallUploadToIPFS,
        SetIpfsProgress \<lparr>ipfs_status = Ipfs_error, progress = 0, ipfs_cid = None,
                         ipfs_error = Some (message (errs 3)), retryAttempt = Some 3\<rparr>,
        SetIpfsStatus Error],
       Inl (message (errs 3)))"
    using give_up_after_last_failure [OF e(4)] by (simp add: n)
  have r2: "uploadToIPFSWithRetry w (Suc (Suc 0)) =
     ([SetIpfsStatus Loading, uploading 2, CallUploadToIPFS, Wait 2000] @
      fst (uploadToIPFSWithRetry w (Suc (Suc (Suc 0)))),
      snd (uploadToIPFSWithRetry w (Suc (Suc (Suc 0)))))"
    using retry_after_failure [OF e(3)] by (simp add: n)
  have r1: "uploadToIPFSWithRetry w (Suc 0) =
     ([SetIpfsStatus Loading, uploading 1, CallUploadToIPFS, Wait 2000] @
      fst (uploadToIPFSWithRetry w (Suc (Suc 0))), snd (uploadToIPFSWithRetry w (Suc (Suc 0))))"
    using retry_after_failure [OF e(2)] by (simp add: n)
  have r0: "uploadToIPFSWithRetry w 0 =
     ([SetIpfsStatus Loading, uploading 0, CallUploadToIPFS, Wait 2000] @
      fst (uploadToIPFSWithRetry w (Suc 0)), snd (uploadToIPFSWithRetry w (Suc 0)))"
    using retry_after_failure [OF e(1)] by simp
  show ?thesis
    by (simp add: r0 r1 r2 r3)
qed

lemma attempts_made_append: "attempts_made (xs @ ys) = attempts_made xs + attempts_made ys"
  by (induction xs rule: attempts_made.induct) simp_all

lemma signDocument_trace:
  assumes "signDocument w documentHash = (tr, Inr sd)"
  shows "tr = [SetSignStatus Loading, SetSignStatus Ok, OnDocumentSigned sd] \<and>
         account w \<noteq> None \<and> isConnected w \<and> documentHash \<noteq> None"
  using assms
  by (auto simp: signDocument_def split: option.splits if_splits sum.splits)

lemma run_attempts_when_all_fail:
  assumes "\<And>k. k \<le> 3 \<Longrightarrow> uploadToIPFS w k = Inl (errs k)"
    and "signDocument w documentHash = (tr, Inr sd)"
  shows "attempts_made (fst (handleSignAndStore w reg documentHash)) = 4"
proof -
  from signDocument_trace [OF assms(2)]
  have tr: "tr = [SetSignStatus Loading, SetSignStatus Ok, OnDocumentSigned sd]"
    and ok: "account w \<noteq> None" "isConnected w" and dh: "documentHash \<noteq> None" by simp_all
  from dh obtain h where h: "documentHash = Some h" by blast
  have 4: "attempts_made (fst (uploadToIPFSWithRetry w 0)) = 4"
    by (simp add: retry_trace_when_all_fail [OF assms(1)] uploading_def)
  obtain pub msg where u: "uploadToIPFSWithRetry w 0 = (pub, Inl msg)"
    using retry_trace_when_all_fail [OF assms(1)] by simp
  with 4 have "attempts_made pub = 4" by simp
  with ok h assms(2) u tr show ?thesis
    by (simp add: handleSignAndStore_def Let_def attempts_made_append)
qed

text \<open>
  Claim C8. With the retry policy of \<open>UPLOAD_CONFIG\<close> (\<open>maxRetries\<close> 3, \<open>retryDelay\<close> 2000 ms)
  and a publisher that fails at every call, the publish stage calls the publisher
  exactly 4 times; before each call the progress shows the number of the attempt (0 to
  3), between two consecutive calls it waits \<open>retryDelay\<close>, and after the fourth failure
  it reports that error and throws its message. A whole run whose signing stage succeeded
  makes these 4 calls and no other.
\<close>

theorem four_publish_attempts:
  assumes "\<And>k. k \<le> 3 \<Longrightarrow> uploadToIPFS w k = Inl (errs k)"
  shows "maxRetries (ipfs UPLOAD_CONFIG) = 3 \<and> retryDelay (ipfs UPLOAD_CONFIG) = 2000 \<and>
    uploadToIPFSWithRetry w 0 =
      ([SetIpfsStatus Loading, uploading 0, CallUploadToIPFS, Wait 2000,
        SetIpfsStatus Loading, uploading 1, CallUploadToIPFS, Wait 2000,
        SetIpfsStatus Loading, uploading 2, CallUploadToIPFS, Wait 2000,
        SetIpfsStatus Loading, uploading 3, CallUploadToIPFS,
        SetIpfsProgress \<lparr>ipfs_status = Ipfs_error, progress = 0, ipfs_cid = None,
                         ipfs_error = Some (message (errs 3)), retryAttempt = Some 3\<rparr>,
        SetIpfsStatus Error],
       Inl (message (errs 3))) \<and>
    attempts_made (fst (uploadToIPFSWithRetry w 0)) = 4 \<and>
    (\<forall>tr sd. signDocument w documentHash = (tr, Inr sd) \<longrightarrow>
       attempts_made (fst (handleSignAndStore w reg documentHash)) = 4)"
proof -
  have tr: "uploadToIPFSWithRetry w 0 =
      ([SetIpfsStatus Loading, uploading 0, CallUploadToIPFS, Wait 2000,
        SetIpfsStatus Loading, uploading 1, CallUploadToIPFS, Wait 2000,
        SetIpfsStatus Loading, uploading 2, CallUploadToIPFS, Wait 2000,
        SetIpfsStatus Loading, uploading 3, CallUploadToIPFS,
        SetIpfsProgress \<lparr>ipfs_status = Ipfs_error, progress = 0, ipfs_cid = None,
                         ipfs_error = Some (message (errs 3)), retryAttempt = Some 3\<rparr>,
        SetIpfsStatus Error],
       Inl (message (errs 3)))"
    using assms by (rule retry_trace_when_all_fail)
  have "attempts_made (fst (uploadToIPFSWithRetry w 0)) = 4"
    by (simp add: tr uploading_def)
  moreover have "attempts_made (fst (handleSignAndStore w reg documentHash)) = 4"
    if "signDocument w documentHash = (tr, Inr sd)" for tr sd
    using assms that by (rule run_attempts_when_all_fail)
  ultimately show ?thesis using tr by (simp add: maxRetries_3)
qed

theorem four_publish_attempts_witness:
  "uploadToIPFS always_failing 0 = Inl \<lparr>errorType = NETWORK_ERROR, message = ''Network error''\<rparr> \<and>
   uploadToIPFS always_failing 1 = Inl \<lparr>errorType = NETWORK_ERROR, message = ''Network error''\<rparr> \<and>
   uploadToIPFS always_failing 2 = Inl \<lparr>errorType = NETWORK_ERROR, message = ''Network error''\<rparr> \<and>
   uploadToIPFS always_failing 3 = Inl \<lparr>errorType = NETWORK_ERROR, message = ''Network error''\<rparr> \<and>
   attempts_made (fst (uploadToIPFSWithRetry always_failing 0)) = 4 \<and>
   snd (uploadToIPFSWithRetry always_failing 0) = Inl ''Network error'' \<and>
   (\<exists>tr sd. signDocument always_failing (Some 7) = (tr, Inr sd)) \<and>
   attempts_made (fst (handleSignAndStore always_failing deployed (Some 7))) = 4"
proof -
  have h: "\<And>k. k \<le> 3 \<Longrightarrow> uploadToIPFS always_failing k =
       Inl ((\<lambda>_. \<lparr>errorType = NETWORK_ERROR, message = ''Network error''\<rparr>) k)"
    by (simp add: always_failing_def)
  have sg: "\<exists>tr sd. signDocument always_failing (Some 7) = (tr, Inr sd)"
    by (simp add: signDocument_def always_failing_def)
  note r = four_publish_attempts [OF h, of "Some 7" deployed]
  have "attempts_made (fst (uploadToIPFSWithRetry always_failing 0)) = 4"
    using r by blast
  moreover have "snd (uploadToIPFSWithRetry always_failing 0) = Inl ''Network error''"
    using r by simp
  moreover have "attempts_made (fst (handleSignAndStore always_failing deployed (Some 7))) = 4"
    using r sg by blast
  ultimately show ?thesis using h sg by simp
qed

text \<open>
  The run when the publisher delivers: a signed document whose upload returned a CID is
  committed with that CID, if the registry accepts the record.
\<close>

lemma publish_success:
  assumes "uploadToIPFS w a = Inr c"
  shows "uploadToIPFSWithRetry w a =
     ([SetIpfsStatus Loading, uploading a, CallUploadToIPFS,
       SetIpfsProgress \<lparr>ipfs_status = Success, progress = 100, ipfs_cid = Some c,
                        ipfs_error = None, retryAttempt = None\<rparr>,
       SetIpfsStatus Ok],
      Inr c)"
  using assms
  by (subst uploadToIPFSWithRetry.simps) (simp add: Let_def uploading_def)

lemma run_commits_after_publish:
  assumes "signDocument w (Some h) = (tr, Inr sd)"
    and "uploadToIPFSWithRetry w 0 = (pub, Inr c)"
    and "contractLoaded w" and "transactionHash w \<noteq> []"
    and "storeDocumentHash (txEnvironment w) reg h (sd_timestamp sd) (sd_signature sd)
           (sd_signerAddress sd) c = Inr (reg', evs)"
  shows "snd (handleSignAndStore w reg (Some h)) =
           (reg', Inr \<lparr>txHash = transactionHash w, blockNumber = 0, confirmations = 2,
                       ipfsCID = c\<rparr>)"
proof -
  from signDocument_trace [OF assms(1)] have ok: "account w \<noteq> None" "isConnected w"
    by simp_all
  with assms(3,5) have "hook_storeDocumentHash w reg h (sd_timestamp sd) (sd_signature sd)
      (sd_signerAddress sd) c =
        ([CallStoreDocumentHash h (sd_timestamp sd) (sd_signature sd) (sd_signerAddress sd) c],
         reg', Inr (Some (transactionHash w)))"
    by (simp add: hook_storeDocumentHash_def)
  with assms(4) have "snd (storeOnBlockchain w reg h c sd) =
      (reg', Inr \<lparr>txHash = transactionHash w, blockNumber = 0, confirmations = 2, ipfsCID = c\<rparr>)"
    by (simp add: storeOnBlockchain_def Let_def UPLOAD_CONFIG_def)
  then obtain com where "storeOnBlockchain w reg h c sd =
      (com, reg', Inr \<lparr>txHash = transactionHash w, blockNumber = 0, confirmations = 2, ipfsCID = c\<rparr>)"
    by (cases "storeOnBlockchain w reg h c sd") simp
  with ok assms(1,2) show ?thesis
    by (simp add: handleSignAndStore_def Let_def)
qed

lemma signDocument_no_commit_effect:
  "\<forall>x \<in> set (fst (signDocument w documentHash)). \<not> commit_stage x"
  by (auto simp: signDocument_def split: option.splits sum.splits)

lemma run_trace_when_all_fail:
  assumes "\<And>k. k \<le> 3 \<Longrightarrow> uploadToIPFS w k = Inl (errs k)"
    and "signDocument w documentHash = (tr, Inr sd)"
  shows "handleSignAndStore w reg documentHash =
      ([SetIsProcessing True, SetError None, SetSignStatus Idle, SetIpfsStatus Idle,
        SetBlockchainStatus Idle,
        SetSignStatus Loading, SetSignStatus Ok, OnDocumentSigned sd,
        SetIpfsStatus Loading, uploading 0, CallUploadToIPFS, Wait 2000,
        SetIpfsStatus Loading, uploading 1, CallUploadToIPFS, Wait 2000,
        SetIpfsStatus Loading, uploading 2, CallUploadToIPFS, Wait 2000,
        SetIpfsStatus Loading, uploading 3, CallUploadToIPFS,
        SetIpfsProgress \<lparr>ipfs_status = Ipfs_error, progress = 0, ipfs_cid = None,
                         ipfs_error = Some (message (errs 3)), retryAttempt = Some 3\<rparr>,
        SetIpfsStatus Error,
        SetError (Some (or_else (message (errs 3)) ''Failed to complete sign and store process'')),
        SetIsProcessing False],
       reg,
       Inl (or_else (message (errs 3)) ''Failed to complete sign and store process''))"
proof -
  from signDocument_trace [OF assms(2)]
  have tr: "tr = [SetSignStatus Loading, SetSignStatus Ok, OnDocumentSigned sd]"
    and ok: "account w \<noteq> None" "isConnected w" and dh: "documentHash \<noteq> None" by simp_all
  from dh obtain h where h: "documentHash = Some h" by blast
  note u = retry_trace_when_all_fail [OF assms(1)]
  from ok h assms(2) tr show ?thesis
    by (simp add: handleSignAndStore_def Let_def u)
qed

text \<open>
  Claim C1 says that a run whose publish stage fails at every attempt goes on to commit
  and ends with a record whose storage locator is empty. In \<open>handleSignAndStore\<close> the
  error thrown by \<open>uploadToIPFSWithRetry\<close> after the last attempt is caught by the
  \<open>catch\<close> around all three stages: with a publisher that always fails the run ends
  with \<open>setError\<close>, the registry is never called and holds no record for the document.
\<close>

theorem publish_exhaustion_aborts_run:
  "uploadToIPFS always_failing 0 = Inl \<lparr>errorType = NETWORK_ERROR, message = ''Network error''\<rparr> \<and>
   uploadToIPFS always_failing 1 = Inl \<lparr>errorType = NETWORK_ERROR, message = ''Network error''\<rparr> \<and>
   uploadToIPFS always_failing 2 = Inl \<lparr>errorType = NETWORK_ERROR, message = ''Network error''\<rparr> \<and>
   uploadToIPFS always_failing 3 = Inl \<lparr>errorType = NETWORK_ERROR, message = ''Network error''\<rparr> \<and>
   snd (snd (handleSignAndStore always_failing deployed (Some 7))) = Inl ''Network error'' \<and>
   fst (snd (handleSignAndStore always_failing deployed (Some 7))) = deployed \<and>
   isDocumentStored (fst (snd (handleSignAndStore always_failing deployed (Some 7)))) 7 = Inr False"
proof -
  have h: "\<And>k. k \<le> 3 \<Longrightarrow> uploadToIPFS always_failing k =
       Inl ((\<lambda>_. \<lparr>errorType = NETWORK_ERROR, message = ''Network error''\<rparr>) k)"
    by (simp add: always_failing_def)
  have up: "snd (uploadToIPFSWithRetry always_failing 0) = Inl ''Network error''"
    using retry_trace_when_all_fail [OF h] by simp
  have sg: "\<exists>tr sd. signDocument always_failing (Some 7) = (tr, Inr sd)"
    by (simp add: signDocument_def always_failing_def)
  have acc: "account always_failing = Some 5" "isConnected always_failing"
    by (simp_all add: always_failing_def)
  from sg obtain tr sd where s: "signDocument always_failing (Some 7) = (tr, Inr sd)" by blast
  obtain tr' where u: "uploadToIPFSWithRetry always_failing 0 = (tr', Inl ''Network error'')"
    using up by (cases "uploadToIPFSWithRetry always_failing 0") simp
  have r: "snd (handleSignAndStore always_failing deployed (Some 7)) = (deployed, Inl ''Network error'')"
    by (simp add: handleSignAndStore_def acc s u Let_def or_else_def)
  have "isDocumentStored deployed 7 = Inr False"
    by (simp add: isDocumentStored_def deployed_def zero_Document_def)
  with r h show ?thesis by simp
qed

text \<open>
  Claim C1, as the workflow has it. A run whose publish stage fails at every attempt
  does not reach the commit stage: it ends with an error reported through \<open>setError\<close>,
  the registry is left as it was, and nothing of the commit stage happens: no
  \<open>storeDocumentHash\<close> transaction is sent, the blockchain status and progress are not
  touched after the reset at the start, \<open>onStored\<close> is not called. When the signing stage
  succeeded, the run is exactly: the reset, the three effects of signing, the four
  publish attempts with their waits, the publish error, and \<open>setError\<close> with the message
  of the last publish failure.
\<close>

theorem publish_exhaustion_is_fatal:
  assumes "\<And>k. k \<le> 3 \<Longrightarrow> uploadToIPFS w k = Inl (errs k)"
  shows "(\<exists>msg. snd (snd (handleSignAndStore w reg documentHash)) = Inl msg) \<and>
         fst (snd (handleSignAndStore w reg documentHash)) = reg \<and>
         (\<forall>x \<in> set (fst (handleSignAndStore w reg documentHash)). \<not> commit_stage x) \<and>
         (\<forall>tr sd. signDocument w documentHash = (tr, Inr sd) \<longrightarrow>
            handleSignAndStore w reg documentHash =
              ([SetIsProcessing True, SetError None, SetSignStatus Idle, SetIpfsStatus Idle,
                SetBlockchainStatus Idle,
                SetSignStatus Loading, SetSignStatus Ok, OnDocumentSigned sd,
                SetIpfsStatus Loading, uploading 0, CallUploadToIPFS, Wait 2000,
                SetIpfsStatus Loading, uploading 1, CallUploadToIPFS, Wait 2000,
                SetIpfsStatus Loading, uploading 2, CallUploadToIPFS, Wait 2000,
                SetIpfsStatus Loading, uploading 3, CallUploadToIPFS,
                SetIpfsProgress \<lparr>ipfs_status = Ipfs_error, progress = 0, ipfs_cid = None,
                                 ipfs_error = Some (message (errs 3)), retryAttempt = Some 3\<rparr>,
                SetIpfsStatus Error,
                SetError (Some (or_else (message (errs 3))
                                  ''Failed to complete sign and store process'')),
                SetIsProcessing False],
               reg,
               Inl (or_else (message (errs 3)) ''Failed to complete sign and store process'')))"
proof -
  obtain tr r where s: "signDocument w documentHash = (tr, r)"
    by (cases "signDocument w documentHash")
  have exact: "handleSignAndStore w reg documentHash =
              ([SetIsProcessing True, SetError None, SetSignStatus Idle, SetIpfsStatus Idle,
                SetBlockchainStatus Idle,
                SetSignStatus Loading, SetSignStatus Ok, OnDocumentSigned sd,
                SetIpfsStatus Loading, uploading 0, CallUploadToIPFS, Wait 2000,
                SetIpfsStatus Loading, uploading 1, CallUploadToIPFS, Wait 2000,
                SetIpfsStatus Loading, uploading 2, CallUploadToIPFS, Wait 2000,
                SetIpfsStatus Loading, uploading 3, CallUploadToIPFS,
                SetIpfsProgress \<lparr>ipfs_status = Ipfs_error, progress = 0, ipfs_cid = None,
                                 ipfs_error = Some (message (errs 3)), retryAttempt = Some 3\<rparr>,
                SetIpfsStatus Error,
                SetError (Some (or_else (message (errs 3))
                                  ''Failed to complete sign and store process'')),
                SetIsProcessing False],
               reg,
               Inl (or_else (message (errs 3)) ''Failed to complete sign and store process''))"
    if "signDocument w documentHash = (tr', Inr sd)" for tr' sd
    using assms that by (rule run_trace_when_all_fail)
  have rest: "(\<exists>msg. snd (snd (handleSignAndStore w reg documentHash)) = Inl msg) \<and>
         fst (snd (handleSignAndStore w reg documentHash)) = reg \<and>
         (\<forall>x \<in> set (fst (handleSignAndStore w reg documentHash)). \<not> commit_stage x)"
  proof (cases r)
    case (Inr sd)
    with s exact [of tr sd] show ?thesis by (simp add: uploading_def)
  next
    case (Inl msg)
    from signDocument_no_commit_effect [of w documentHash] s
    have nc: "\<forall>x \<in> set tr. \<not> commit_stage x" by simp
    show ?thesis
    proof (cases "account w = None \<or> \<not> isConnected w")
      case True
      then show ?thesis by (auto simp: handleSignAndStore_def)
    next
      case False
      show ?thesis
      proof (cases documentHash)
        case None
        with False show ?thesis by (auto simp: handleSignAndStore_def)
      next
        case (Some h)
        with False Inl s nc show ?thesis by (auto simp: handleSignAndStore_def Let_def)
      qed
    qed
  qed
  from rest exact show ?thesis by blast
qed

theorem publish_exhaustion_is_fatal_witness:
  "uploadToIPFS always_failing 0 = Inl \<lparr>errorType = NETWORK_ERROR, message = ''Network error''\<rparr> \<and>
   uploadToIPFS always_failing 1 = Inl \<lparr>errorType = NETWORK_ERROR, message = ''Network error''\<rparr> \<and>
   uploadToIPFS always_failing 2 = Inl \<lparr>errorType = NETWORK_ERROR, message = ''Network error''\<rparr> \<and>
   uploadToIPFS always_failing 3 = Inl \<lparr>errorType = NETWORK_ERROR, message = ''Network error''\<rparr> \<and>
   (\<exists>tr sd. signDocument always_failing (Some 7) = (tr, Inr sd)) \<and>
   snd (snd (handleSignAndStore always_failing one_stored (Some 7))) = Inl ''Network error'' \<and>
   fst (snd (handleSignAndStore always_failing one_stored (Some 7))) = one_stored \<and>
   list_all (\<lambda>x. \<not> commit_stage x) (fst (handleSignAndStore always_failing one_stored (Some 7))) \<and>
   length (fst (handleSignAndStore always_failing one_stored (Some 7))) = 27"
proof -
  have h: "\<And>k. k \<le> 3 \<Longrightarrow> uploadToIPFS always_failing k =
       Inl ((\<lambda>_. \<lparr>errorType = NETWORK_ERROR, message = ''Network error''\<rparr>) k)"
    by (simp add: always_failing_def)
  have sg: "\<exists>tr sd. signDocument always_failing (Some 7) = (tr, Inr sd)"
    by (simp add: signDocument_def always_failing_def)
  then obtain tr sd where s: "signDocument always_failing (Some 7) = (tr, Inr sd)" by blast
  note r = publish_exhaustion_is_fatal [OF h, of one_stored "Some 7"]
  from r s have e: "handleSignAndStore always_failing one_stored (Some 7) =
              ([SetIsProcessing True, SetError None, SetSignStatus Idle, SetIpfsStatus Idle,
                SetBlockchainStatus Idle,
                SetSignStatus Loading, SetSignStatus Ok, OnDocumentSigned sd,
                SetIpfsStatus Loading, uploading 0, CallUploadToIPFS, Wait 2000,
                SetIpfsStatus Loading, uploading 1, CallUploadToIPFS, Wait 2000,
                SetIpfsStatus Loading, uploading 2, CallUploadToIPFS, Wait 2000,
                SetIpfsStatus Loading, uploading 3, CallUploadToIPFS,
                SetIpfsProgress \<lparr>ipfs_status = Ipfs_error, progress = 0, ipfs_cid = None,
                                 ipfs_error = Some ''Network error'', retryAttempt = Some 3\<rparr>,
                SetIpfsStatus Error,
                SetError (Some (or_else ''Network error''
                                  ''Failed to complete sign and store process'')),
                SetIsProcessing False],
               one_stored,
               Inl (or_else ''Network error'' ''Failed to complete sign and store process''))"
    by simp
  have "snd (snd (handleSignAndStore always_failing one_stored (Some 7))) = Inl ''Network error''"
    "fst (snd (handleSignAndStore always_failing one_stored (Some 7))) = one_stored"
    "length (fst (handleSignAndStore always_failing one_stored (Some 7))) = 27"
    by (simp_all add: e or_else_def)
  moreover from r
  have "list_all (\<lambda>x. \<not> commit_stage x) (fst (handleSignAndStore always_failing one_stored (Some 7)))"
    by (simp add: list_all_iff)
  ultimately show ?thesis using h sg by simp
qed

section \<open>Properties of the verifier\<close>

lemma hex40_5: "hex40 5 = ascii ''0000000000000000000000000000000000000005''"
  by (simp add: hex40_def hexDigit_def ascii_def upt_rec)

text \<open>
  For a document that is stored, a file that hashes to its key and a text that resolves:
  the answer is matched or mismatch according to the comparison of the two lower-cased
  strings, the recorded signer as ethers writes it and the resolved text.
\<close>

lemma handleVerify_compares_text:
  assumes "trim typed \<noteq> []"
    and "fst (resolveENSName p cache (trim typed) chainId) = Some r" and "r \<noteq> []"
    and "getDocumentInfo reg (keccak256 p content) = Inr d"
  shows "handleVerify p chainId cache True reg (Some content) typed =
     (let info = \<lparr>info_hash = hash d, info_timestamp = timestamp d,
                  info_signer = addressString p (signer d), info_signature = signature d,
                  info_ipfsCid = ipfsCid d\<rparr>
      in if toLowerCase p (addressString p (signer d)) = toLowerCase p r
         then matched info else mismatch info)"
proof -
  from assms(4) have "signer (documents reg (keccak256 p content)) \<noteq> 0"
    and "d = documents reg (keccak256 p content)"
    by (auto simp: getDocumentInfo_def documentExists_def split: if_splits)
  with assms show ?thesis
    by (simp add: handleVerify_def calculateFileHash_def hook_isDocumentStored_def
        hook_getDocumentInfo_def isDocumentStored_def Let_def matched_def mismatch_def
        or_else_def)
qed

text \<open>A file whose hash is not stored is reported as not found, whatever text resolves.\<close>

lemma handleVerify_not_stored:
  assumes "trim typed \<noteq> []"
    and "fst (resolveENSName p cache (trim typed) chainId) = Some r" and "r \<noteq> []"
    and "isDocumentStored reg (keccak256 p content) = Inr False"
  shows "handleVerify p chainId cache True reg (Some content) typed = not_found"
  using assms
  by (simp add: handleVerify_def calculateFileHash_def hook_isDocumentStored_def
      Let_def not_found_def)

text \<open>
  Claim C3 says that verifying committed bytes with the identity that committed them
  answers matched. \<open>resolveENSName\<close> returns a text that \<open>ethers.isAddress\<close> accepts as
  it was typed, and \<open>handleVerify\<close> compares it with the recorded signer as lower-cased
  strings. For the document stored with signer \<open>0x0000000000000000000000000000000000000005\<close>:
  when that address is typed with the prefix \<open>0x\<close> the answer is matched; when the same
  address is typed without the prefix, the text is accepted as an address and the
  answer is that the document was signed by a different address.
\<close>

theorem verify_rejects_signer_without_prefix:
  "getDocumentInfo one_stored (calculateFileHash plain_platform [1, 2, 3, 4, 5, 6, 7]) =
     Inr \<lparr>hash = 7, timestamp = 1000, signer = 5, signature = [1], ipfsCid = ''Qm''\<rparr> \<and>
   addressString plain_platform 5 = ascii ''0x0000000000000000000000000000000000000005'' \<and>
   isAddress plain_platform (ascii ''0x0000000000000000000000000000000000000005'') \<and>
   isAddress plain_platform (ascii ''0000000000000000000000000000000000000005'') \<and>
   handleVerify plain_platform 31337 no_cache True one_stored (Some [1, 2, 3, 4, 5, 6, 7])
     (ascii ''0x0000000000000000000000000000000000000005'') = matched info_of_seven \<and>
   handleVerify plain_platform 31337 no_cache True one_stored (Some [1, 2, 3, 4, 5, 6, 7])
     (ascii ''0000000000000000000000000000000000000005'') = mismatch info_of_seven"
proof -
  have g: "getDocumentInfo one_stored (keccak256 plain_platform [1, 2, 3, 4, 5, 6, 7]) =
     Inr \<lparr>hash = 7, timestamp = 1000, signer = 5, signature = [1], ipfsCid = ''Qm''\<rparr>"
    by (simp add: one_stored_eq getDocumentInfo_def documentExists_def plain_platform_def
        length_digest_def)
  have s: "addressString plain_platform 5 = ascii ''0x0000000000000000000000000000000000000005''"
    by (simp add: plain_platform_def hex40_5 ascii_def)
  have a1: "isAddress plain_platform (ascii ''0x0000000000000000000000000000000000000005'')"
    and a2: "isAddress plain_platform (ascii ''0000000000000000000000000000000000000005'')"
    by (simp_all add: plain_platform_def digits_isAddress_def ascii_def isDigit_def)
  have t1: "trim (ascii ''0x0000000000000000000000000000000000000005'') =
      ascii ''0x0000000000000000000000000000000000000005''"
    and t2: "trim (ascii ''0000000000000000000000000000000000000005'') =
      ascii ''0000000000000000000000000000000000000005''"
    by (simp_all add: trim_def ascii_def isWhiteSpace_def)
  have n1: "ascii ''0x0000000000000000000000000000000000000005'' \<noteq> []"
    and n2: "ascii ''0000000000000000000000000000000000000005'' \<noteq> []"
    by (simp_all add: ascii_def)
  have r1: "fst (resolveENSName plain_platform no_cache
        (trim (ascii ''0x0000000000000000000000000000000000000005'')) 31337) =
      Some (ascii ''0x0000000000000000000000000000000000000005'')"
    using a1 n1 by (simp add: t1 resolveENSName_def)
  have r2: "fst (resolveENSName plain_platform no_cache
        (trim (ascii ''0000000000000000000000000000000000000005'')) 31337) =
      Some (ascii ''0000000000000000000000000000000000000005'')"
    using a2 n2 by (simp add: t2 resolveENSName_def)
  have l: "toLowerCase plain_platform (ascii ''0x0000000000000000000000000000000000000005'') \<noteq>
      toLowerCase plain_platform (ascii ''0000000000000000000000000000000000000005'')"
    by (simp add: plain_platform_def ascii_toLowerCase_def ascii_def)
  have m1: "handleVerify plain_platform 31337 no_cache True one_stored (Some [1, 2, 3, 4, 5, 6, 7])
     (ascii ''0x0000000000000000000000000000000000000005'') = matched info_of_seven"
    using handleVerify_compares_text [where p = plain_platform and content = "[1, 2, 3, 4, 5, 6, 7]",
        OF _ r1 n1 g] n1 s
    by (simp add: t1 info_of_seven_def)
  have m2: "handleVerify plain_platform 31337 no_cache True one_stored (Some [1, 2, 3, 4, 5, 6, 7])
     (ascii ''0000000000000000000000000000000000000005'') = mismatch info_of_seven"
    using handleVerify_compares_text [where p = plain_platform and content = "[1, 2, 3, 4, 5, 6, 7]",
        OF _ r2 n2 g] n2 s l
    by (simp add: t2 info_of_seven_def)
  from g s a1 a2 m1 m2 show ?thesis by (simp add: calculateFileHash_def)
qed

end
